theory Spec2Isabelle
  imports Complex_Main
begin

section \<open>Exceptions, dictionaries and external calls\<close>

text \<open>
  A Python exception (a subclass of \<open>Exception\<close>) is a value; \<open>str_exc\<close> is \<open>str(e)\<close>.
  A function that may raise returns \<open>error + 'a\<close>, \<open>Inl\<close> being the raise.
\<close>

datatype error = ValueError string | Exception string

fun str_exc :: "error \<Rightarrow> string" where
  "str_exc (ValueError m) = m"
| "str_exc (Exception m) = m"

text \<open>
  The result dictionaries are maps from keys to values; \<open>'f\<close> is the type of Python
  floats, which the code only passes through.
\<close>

datatype 'f pyval =
    PyNone
  | PyStr string
  | PyInt int
  | PyBool bool
  | PyFloat 'f
  | PySources "(string \<times> (string \<times> string) list) list"

type_synonym 'f pydict = "string \<rightharpoonup> 'f pyval"

text \<open>
  The calls to the model, the retrieval libraries and the index service, in the order they
  are made. The lines printed to the standard output are not recorded; a \<open>print\<close> is a call
  that may raise (a closed stream, a character the stream cannot encode).
\<close>

datatype event =
    CallInitialize
  | CallHybrid string
  | CallMMR string int int
  | CallSimilarity string int
  | CallLLM string string
  | CallCreateIndex string nat string string string

definition truthy :: "string option \<Rightarrow> bool" where
  \<comment> \<open>Truth value of an \<open>Optional[str]\<close>: neither \<open>None\<close> nor \<open>""\<close>.\<close>
  "truthy v = (case v of None \<Rightarrow> False | Some s \<Rightarrow> s \<noteq> [])"

section \<open>Python strings\<close>

text \<open>
  Python \<open>str\<close> values are modelled as \<open>string\<close>, \<open>len\<close> as \<open>length\<close>, a slice
  \<open>s[:n]\<close> with \<open>n \<ge> 0\<close> as \<open>take n s\<close>.
\<close>

definition isspace :: "char \<Rightarrow> bool" where
  \<comment> \<open>\<open>str.isspace\<close> on the code points below 256.\<close>
  "isspace c = ((of_char c :: nat) \<in> {9, 10, 11, 12, 13, 28, 29, 30, 31, 32, 133, 160})"

definition py_rstrip :: "string \<Rightarrow> string" where
  "py_rstrip s = rev (dropWhile isspace (rev s))"

definition py_strip :: "string \<Rightarrow> string" where
  "py_strip s = py_rstrip (dropWhile isspace s)"

definition py_endswith :: "string \<Rightarrow> string \<Rightarrow> bool" where
  "py_endswith s suf = (length suf \<le> length s \<and> drop (length s - length suf) s = suf)"

fun py_join :: "string \<Rightarrow> string list \<Rightarrow> string" where
  "py_join sep [] = []"
| "py_join sep [p] = p"
| "py_join sep (p # q # ps) = p @ sep @ py_join sep (q # ps)"

definition digit_char :: "nat \<Rightarrow> char" where
  "digit_char d = char_of (48 + d)"

fun str_of_nat :: "nat \<Rightarrow> string" where
  "str_of_nat n = (if n < 10 then [digit_char n] else str_of_nat (n div 10) @ [digit_char (n mod 10)])"

declare str_of_nat.simps [simp del]

section \<open>Documents\<close>

text \<open>
  A langchain \<open>Document\<close>: \<open>page_content\<close> is a \<open>str\<close> (so \<open>doc.page_content or ""\<close> is
  \<open>page_content\<close> itself), \<open>metadata\<close> a dict, kept in insertion order, each value given
  by its \<open>str()\<close> rendering.
\<close>

record document =
  page_content :: string
  metadata :: "(string \<times> string) list"

section \<open>Context Composer: \<open>RAGGenerator._prepare_context\<close>\<close>

definition max_total_chars :: nat where
  "max_total_chars = 4000"

definition per_doc_max :: nat where
  "per_doc_max = 1200"

definition doc_content :: "document \<Rightarrow> string" where
  "doc_content doc =
     (let content = py_strip (page_content doc)
      in if length content > per_doc_max then take per_doc_max content @ ''...'' else content)"

definition metadata_parts :: "document \<Rightarrow> string list" where
  "metadata_parts doc =
     map (\<lambda>(key, v). key @ '': '' @ v)
       (filter (\<lambda>(key, v). key \<notin> set [''source'', ''file_name'']) (metadata doc))"

definition metadata_str :: "document \<Rightarrow> string" where
  "metadata_str doc =
     (if metadata doc \<noteq> [] \<and> metadata_parts doc \<noteq> []
      then '' (Metadata: '' @ py_join '', '' (metadata_parts doc) @ '')''
      else [])"

definition doc_chunk :: "nat \<Rightarrow> document \<Rightarrow> string" where
  "doc_chunk i doc =
     ''Document '' @ str_of_nat i @ metadata_str doc @ [CHR '':'', CHR 0x0A]
       @ doc_content doc @ [CHR 0x0A]"

definition trim_chunk :: "nat \<Rightarrow> string \<Rightarrow> string" where
  \<comment> \<open>Trim if exceeding total cap.\<close>
  "trim_chunk used chunk =
     (let remaining = int max_total_chars - int used
      in if int (length chunk) > remaining
         then (let chunk' = take (nat (max 0 remaining)) chunk
               in if \<not> py_endswith chunk' ''...'' then py_rstrip chunk' @ ''...'' else chunk')
         else chunk)"

fun compose_loop :: "nat \<Rightarrow> nat \<Rightarrow> string list \<Rightarrow> document list \<Rightarrow> string list" where
  "compose_loop i used parts [] = parts"
| "compose_loop i used parts (doc # docs) =
     (if used \<ge> max_total_chars then parts
      else (let chunk = trim_chunk used (doc_chunk i doc)
            in compose_loop (i + 1) (used + length chunk) (parts @ [chunk]) docs))"

definition context_parts :: "document list \<Rightarrow> string list" where
  "context_parts documents = compose_loop 1 0 [] documents"

definition prepare_context :: "document list \<Rightarrow> string" where
  "prepare_context documents =
     (if documents = [] then ''No relevant context found.''
      else py_join [CHR 0x0A] (context_parts documents))"


section \<open>Generator: \<open>RAGGenerator\<close>\<close>

text \<open>
  \<open>'p\<close> is the type of prompt templates. \<open>from_template\<close> is
  \<open>ChatPromptTemplate.from_template\<close>; \<open>invoke p context question\<close> is
  \<open>(p | self.llm).invoke({"context": context, "question": question}).content\<close>;
  \<open>print_generation\<close> is the \<open>print\<close> of the line \<open>[Generation] ... took ... ms\<close>, whose
  text depends on the elapsed time only.
\<close>

record 'p llm_env =
  from_template :: "string \<Rightarrow> error + 'p"
  invoke :: "'p \<Rightarrow> string \<Rightarrow> string \<Rightarrow> error + string"
  print_generation :: "error + unit"

record 'p generator =
  prompt_template :: 'p

definition select_prompt :: "'p llm_env \<Rightarrow> 'p generator \<Rightarrow> string option \<Rightarrow> error + 'p" where
  \<comment> \<open>Use custom prompt if provided.\<close>
  "select_prompt env self custom_prompt =
     (if truthy custom_prompt then from_template env (the custom_prompt)
      else Inr (prompt_template self))"

definition generate_response ::
  "'p llm_env \<Rightarrow> 'p generator \<Rightarrow> string \<Rightarrow> document list \<Rightarrow> string option
     \<Rightarrow> event list \<times> (error + 'f pydict)" where
  "generate_response env self question context_documents custom_prompt =
     (case
        (let context = prepare_context context_documents
         in case select_prompt env self custom_prompt of
              Inl e \<Rightarrow> ([], Inl e)
            | Inr prompt \<Rightarrow>
                (case invoke env prompt context question of
                   Inl e \<Rightarrow> ([CallLLM context question], Inl e)
                 | Inr content \<Rightarrow>
                     (case print_generation env of
                        Inl e \<Rightarrow> ([CallLLM context question], Inl e)
                      | Inr u \<Rightarrow>
                          ([CallLLM context question],
                           Inr [''status'' \<mapsto> PyStr ''success'',
                                ''answer'' \<mapsto> PyStr content,
                                ''context_used'' \<mapsto> PyInt (int (length context_documents)),
                                ''question'' \<mapsto> PyStr question]))))
      of
        (tr, Inl e) \<Rightarrow>
          (tr, Inr [''status'' \<mapsto> PyStr ''error'',
                    ''message'' \<mapsto> PyStr (str_exc e),
                    ''answer'' \<mapsto> PyNone,
                    ''context_used'' \<mapsto> PyInt 0,
                    ''question'' \<mapsto> PyStr question])
      | (tr, Inr result) \<Rightarrow> (tr, Inr result))"

definition source_info :: "document \<Rightarrow> string \<times> (string \<times> string) list" where
  \<comment> \<open>The pair is the dictionary with the keys \<open>content\<close> and \<open>metadata\<close>.\<close>
  "source_info doc =
     (if length (page_content doc) > 200 then take 200 (page_content doc) @ ''...''
      else page_content doc,
      metadata doc)"

definition generate_with_sources ::
  "'p llm_env \<Rightarrow> 'p generator \<Rightarrow> string \<Rightarrow> document list \<Rightarrow> string option
     \<Rightarrow> event list \<times> (error + 'f pydict)" where
  "generate_with_sources env self question context_documents custom_prompt =
     (case
        (case generate_response env self question context_documents custom_prompt of
           (tr, Inl e) \<Rightarrow> (tr, Inl e)
         | (tr, Inr result) \<Rightarrow>
             (if result ''status'' = Some (PyStr ''success'')
              then (tr, Inr (result(''sources'' \<mapsto> PySources (map source_info context_documents))))
              else (tr, Inr result)))
      of
        (tr, Inl e) \<Rightarrow>
          (tr, Inr [''status'' \<mapsto> PyStr ''error'',
                    ''message'' \<mapsto> PyStr (str_exc e),
                    ''answer'' \<mapsto> PyNone,
                    ''sources'' \<mapsto> PySources []])
      | (tr, Inr result) \<Rightarrow> (tr, Inr result))"

section \<open>Hybrid Retriever: \<open>HybridRetriever\<close>\<close>

record config =
  OPENAI_API_KEY :: "string option"
  OPENAI_EMBEDDING_MODEL :: string
  PINECONE_API_KEY :: "string option"
  PINECONE_CLOUD :: "string option"
  PINECONE_REGION :: "string option"
  PINECONE_INDEX_NAME :: string

text \<open>
  The libraries the retriever calls, \<open>'h\<close> being the type of their objects. \<open>HAS_HYBRID\<close>
  is the module's flag, set once at import. The constructor of the hybrid retriever is
  always called with \<open>top_k=5, alpha=0.5\<close>; \<open>set_top_k\<close> and \<open>set_alpha\<close> are the
  assignments to its attributes. \<open>print_retrieval query top_k alpha fetch_k\<close> is the
  \<open>print\<close> of the line \<open>[Retrieval] ...\<close> at the end of the \<open>try\<close> block of
  \<open>retrieve\<close>, and \<open>print_error e\<close> the \<open>print\<close> of \<open>Error during retrieval: e\<close> in
  its \<open>except\<close> handler.
\<close>

record ('h, 'f) retriever_env =
  HAS_HYBRID :: bool
  Pinecone :: "string option \<Rightarrow> error + 'h"
  Index :: "'h \<Rightarrow> string \<Rightarrow> error + 'h"
  OpenAIEmbeddings :: "string option \<Rightarrow> string \<Rightarrow> error + 'h"
  PineconeHybridSearchRetriever :: "'h \<Rightarrow> 'h \<Rightarrow> string \<Rightarrow> error + 'h"
  from_existing_index :: "string \<Rightarrow> 'h \<Rightarrow> string \<Rightarrow> error + 'h"
  set_top_k :: "'h \<Rightarrow> int \<Rightarrow> error + 'h"
  set_alpha :: "'h \<Rightarrow> 'f \<Rightarrow> error + 'h"
  get_relevant_documents :: "'h \<Rightarrow> string \<Rightarrow> error + document list"
  max_marginal_relevance_search :: "'h \<Rightarrow> string \<Rightarrow> int \<Rightarrow> int \<Rightarrow> error + document list"
  similarity_search :: "'h \<Rightarrow> string \<Rightarrow> int \<Rightarrow> error + document list"
  print_retrieval :: "string \<Rightarrow> int \<Rightarrow> 'f \<Rightarrow> int \<Rightarrow> error + unit"
  print_error :: "error \<Rightarrow> error + unit"

record 'h hybrid_retriever =
  config :: config
  namespace :: string
  pc :: "'h option"
  index :: "'h option"
  embeddings :: "'h option"
  retriever :: "'h option"
  vectorstore :: "'h option"

definition initialize_retriever ::
  "('h, 'f) retriever_env \<Rightarrow> 'h hybrid_retriever \<Rightarrow> 'h hybrid_retriever \<times> (error + unit)" where
  "initialize_retriever env self =
     (case Pinecone env (PINECONE_API_KEY (config self)) of
        Inl e \<Rightarrow> (self, Inl e)
      | Inr p \<Rightarrow>
          (let self1 = self\<lparr>pc := Some p\<rparr>
           in case Index env p (PINECONE_INDEX_NAME (config self1)) of
                Inl e \<Rightarrow> (self1, Inl e)
              | Inr ix \<Rightarrow>
                  (let self2 = self1\<lparr>index := Some ix\<rparr>
                   in case OpenAIEmbeddings env (OPENAI_API_KEY (config self2))
                             (OPENAI_EMBEDDING_MODEL (config self2)) of
                        Inl e \<Rightarrow> (self2, Inl e)
                      | Inr em \<Rightarrow>
                          (let self3 = self2\<lparr>embeddings := Some em\<rparr>
                           in if HAS_HYBRID env
                              then (case PineconeHybridSearchRetriever env em ix (namespace self3) of
                                      Inl e \<Rightarrow> (self3, Inl e)
                                    | Inr r \<Rightarrow>
                                        (self3\<lparr>retriever := Some r, vectorstore := None\<rparr>, Inr ()))
                              else (case from_existing_index env (PINECONE_INDEX_NAME (config self3))
                                           em (namespace self3) of
                                      Inl e \<Rightarrow> (self3, Inl e)
                                    | Inr v \<Rightarrow>
                                        (self3\<lparr>vectorstore := Some v, retriever := None\<rparr>, Inr ()))))))"

definition update_params :: "('h, 'f) retriever_env \<Rightarrow> 'h \<Rightarrow> int \<Rightarrow> 'f \<Rightarrow> 'h" where
  \<comment> \<open>The two assignments inside \<open>try: ... except Exception: pass\<close>.\<close>
  "update_params env r top_k alpha =
     (case set_top_k env r top_k of
        Inl e \<Rightarrow> r
      | Inr r1 \<Rightarrow> (case set_alpha env r1 alpha of Inl e \<Rightarrow> r1 | Inr r2 \<Rightarrow> r2))"

definition needs_initialize :: "('h, 'f) retriever_env \<Rightarrow> 'h hybrid_retriever \<Rightarrow> bool" where
  \<comment> \<open>The condition of the last \<open>else\<close> of \<open>retrieve\<close>.\<close>
  "needs_initialize env self =
     (\<not> (HAS_HYBRID env \<and> retriever self \<noteq> None) \<and> \<not> vectorstore self \<noteq> None)"

lemma initialize_retriever_ready:
  "initialize_retriever env self = (self', Inr u) \<Longrightarrow> \<not> needs_initialize env self'"
  by (auto simp: initialize_retriever_def needs_initialize_def Let_def split: sum.splits if_splits)

definition log_retrieval ::
  "('h, 'f) retriever_env \<Rightarrow> string \<Rightarrow> int \<Rightarrow> 'f \<Rightarrow> int \<Rightarrow> document list
     \<Rightarrow> error + document list" where
  \<comment> \<open>The end of the \<open>try\<close> block, reached with \<open>documents\<close> set: the line is printed, then
    the documents are returned.\<close>
  "log_retrieval env query top_k alpha fetch_k documents =
     (case print_retrieval env query top_k alpha fetch_k of
        Inl e \<Rightarrow> Inl e
      | Inr u \<Rightarrow> Inr documents)"

function retrieve ::
  "('h, 'f) retriever_env \<Rightarrow> 'h hybrid_retriever \<Rightarrow> string \<Rightarrow> int \<Rightarrow> 'f \<Rightarrow> int
     \<Rightarrow> 'h hybrid_retriever \<times> event list \<times> (error + document list)" where
  "retrieve env self query top_k alpha fetch_k =
     (case
        (if HAS_HYBRID env \<and> retriever self \<noteq> None
         then (let r = update_params env (the (retriever self)) top_k alpha;
                   self1 = self\<lparr>retriever := Some r\<rparr>
               in case get_relevant_documents env r query of
                    Inl e \<Rightarrow> (self1, [CallHybrid query], Inl e)
                  | Inr documents \<Rightarrow>
                      (self1, [CallHybrid query],
                       log_retrieval env query top_k alpha fetch_k documents))
         else if vectorstore self \<noteq> None
         then (case max_marginal_relevance_search env (the (vectorstore self)) query top_k fetch_k of
                 Inr documents \<Rightarrow>
                   (self, [CallMMR query top_k fetch_k],
                    log_retrieval env query top_k alpha fetch_k documents)
               | Inl e \<Rightarrow>
                   (case similarity_search env (the (vectorstore self)) query top_k of
                      Inl e2 \<Rightarrow>
                        (self, [CallMMR query top_k fetch_k, CallSimilarity query top_k], Inl e2)
                    | Inr documents \<Rightarrow>
                        (self, [CallMMR query top_k fetch_k, CallSimilarity query top_k],
                         log_retrieval env query top_k alpha fetch_k documents)))
         else (case initialize_retriever env self of
                 (self1, Inl e) \<Rightarrow> (self1, [CallInitialize], Inl e)
               | (self1, Inr u) \<Rightarrow>
                   (case retrieve env self1 query top_k alpha fetch_k of
                      (self2, tr, res) \<Rightarrow> (self2, CallInitialize # tr, res))))
      of
        (self', tr, Inl e) \<Rightarrow>
          (case print_error env e of
             Inl e' \<Rightarrow> (self', tr, Inl e')
           | Inr u \<Rightarrow> (self', tr, Inr []))
      | (self', tr, Inr documents) \<Rightarrow> (self', tr, Inr documents))"
  by pat_completeness auto

termination
proof (relation "measure (\<lambda>(env, self, query, top_k, alpha, fetch_k).
                   if needs_initialize env self then 1 else 0)")
  show "wf (measure (\<lambda>(env :: ('h, 'f) retriever_env, self :: 'h hybrid_retriever,
                        query :: string, top_k :: int, alpha :: 'f, fetch_k :: int).
                   if needs_initialize env self then 1 else (0 :: nat)))"
    by simp
next
  fix env :: "('h, 'f) retriever_env" and self self1 :: "'h hybrid_retriever"
    and query :: string and top_k fetch_k :: int and alpha :: 'f and x y
  assume "\<not> (HAS_HYBRID env \<and> retriever self \<noteq> None)" "\<not> vectorstore self \<noteq> None"
    and "(self1, y) = initialize_retriever env self" "y = Inr x"
  then have "needs_initialize env self" "\<not> needs_initialize env self1"
    using initialize_retriever_ready[of env self self1 x]
    by (simp_all add: needs_initialize_def)
  then show "((env, self1, query, top_k, alpha, fetch_k), (env, self, query, top_k, alpha, fetch_k))
        \<in> measure (\<lambda>(env, self, query, top_k, alpha, fetch_k).
                   if needs_initialize env self then 1 else 0)"
    by simp
qed

declare retrieve.simps [simp del]

definition caught :: "('h, 'f) retriever_env \<Rightarrow> error + document list \<Rightarrow> error + document list" where
  \<comment> \<open>What \<open>retrieve\<close> gives for an outcome of its \<open>try\<close> block: the handler prints the
    exception and returns the empty list, unless that \<open>print\<close> raises.\<close>
  "caught env res =
     (case res of
        Inl e \<Rightarrow> (case print_error env e of Inl e' \<Rightarrow> Inl e' | Inr u \<Rightarrow> Inr [])
      | Inr documents \<Rightarrow> Inr documents)"

section \<open>Pipeline Orchestrator: \<open>RAGService\<close>\<close>

record ('h, 'p) rag_service =
  svc_retriever :: "'h hybrid_retriever"
  svc_generator :: "'p generator"
  svc_namespace :: string

definition query ::
  "('h, 'f) retriever_env \<Rightarrow> 'p llm_env \<Rightarrow> ('h, 'p) rag_service \<Rightarrow> string \<Rightarrow> int \<Rightarrow> 'f
     \<Rightarrow> bool \<Rightarrow> string option \<Rightarrow> ('h, 'p) rag_service \<times> event list \<times> (error + 'f pydict)" where
  "query renv lenv self question top_k alpha include_sources custom_prompt =
     (case
        (case retrieve renv (svc_retriever self) question top_k alpha 20 of
           (r', tr, Inl e) \<Rightarrow> (self\<lparr>svc_retriever := r'\<rparr>, tr, Inl e)
         | (r', tr, Inr retrieved_docs) \<Rightarrow>
             (let self1 = self\<lparr>svc_retriever := r'\<rparr>
              in if retrieved_docs = []
                 then (self1, tr,
                       Inr [''status'' \<mapsto> PyStr ''warning'',
                            ''message'' \<mapsto> PyStr ''No relevant documents found'',
                            ''answer'' \<mapsto>
                              PyStr ''I couldn't find any relevant information to answer your question.'',
                            ''context_used'' \<mapsto> PyInt 0,
                            ''sources'' \<mapsto> PySources []])
                 else (case (if include_sources
                             then generate_with_sources lenv (svc_generator self1) question
                                    retrieved_docs custom_prompt
                             else generate_response lenv (svc_generator self1) question
                                    retrieved_docs custom_prompt) of
                         (tr2, Inl e) \<Rightarrow> (self1, tr @ tr2, Inl e)
                       | (tr2, Inr result) \<Rightarrow>
                           (self1, tr @ tr2,
                            Inr (result(''retrieved_docs_count'' \<mapsto> PyInt (int (length retrieved_docs)),
                                        ''search_alpha'' \<mapsto> PyFloat alpha,
                                        ''namespace'' \<mapsto> PyStr (svc_namespace self1)))))))
      of
        (self', tr, Inl e) \<Rightarrow>
          (self', tr, Inr [''status'' \<mapsto> PyStr ''error'',
                           ''message'' \<mapsto> PyStr (str_exc e),
                           ''answer'' \<mapsto> PyNone,
                           ''context_used'' \<mapsto> PyInt 0,
                           ''retrieved_docs_count'' \<mapsto> PyInt 0])
      | (self', tr, Inr result) \<Rightarrow> (self', tr, Inr result))"

definition generate_only ::
  "'p llm_env \<Rightarrow> ('h, 'p) rag_service \<Rightarrow> string \<Rightarrow> string \<Rightarrow> string option
     \<Rightarrow> event list \<times> (error + 'f pydict)" where
  "generate_only lenv self question context_text custom_prompt =
     (case
        (let context_doc = \<lparr>page_content = context_text, metadata = []\<rparr>
         in case generate_response lenv (svc_generator self) question [context_doc] custom_prompt of
              (tr, Inl e) \<Rightarrow> (tr, Inl e)
            | (tr, Inr result) \<Rightarrow> (tr, Inr (result(''context_provided'' \<mapsto> PyBool True))))
      of
        (tr, Inl e) \<Rightarrow>
          (tr, Inr [''status'' \<mapsto> PyStr ''error'',
                    ''message'' \<mapsto> PyStr (str_exc e),
                    ''answer'' \<mapsto> PyNone,
                    ''context_provided'' \<mapsto> PyBool True])
      | (tr, Inr result) \<Rightarrow> (tr, Inr result))"

section \<open>Index Client: \<open>VectorStore._initialize_pinecone\<close>\<close>

text \<open>
  The Pinecone service is a state of type \<open>'w\<close>, read by \<open>list_indexes\<close> (which gives the
  names of the indexes) and changed by \<open>create_index\<close> (name, dimension, metric, cloud and
  region of the serverless spec).
\<close>

record ('h, 'w) pinecone_env =
  Pinecone_client :: "string option \<Rightarrow> error + 'h"
  list_indexes :: "'h \<Rightarrow> 'w \<Rightarrow> error + string list"
  create_index :: "'h \<Rightarrow> string \<Rightarrow> nat \<Rightarrow> string \<Rightarrow> string \<Rightarrow> string \<Rightarrow> 'w \<Rightarrow> 'w \<times> (error + unit)"
  Index_client :: "'h \<Rightarrow> string \<Rightarrow> error + 'h"

record 'h vector_store =
  vs_config :: config
  vs_pc :: "'h option"
  vs_index :: "'h option"

fun py_in :: "string \<Rightarrow> string \<Rightarrow> bool" where
  \<comment> \<open>\<open>sub in s\<close> on strings.\<close>
  "py_in sub [] = (sub = [])"
| "py_in sub (c # cs) = (take (length sub) (c # cs) = sub \<or> py_in sub cs)"

definition embedding_dim :: "config \<Rightarrow> nat" where
  \<comment> \<open>text-embedding-3-small: 1536, text-embedding-3-large: 3072. The model is a \<open>str\<close>, so
    \<open>model or ""\<close> is the model.\<close>
  "embedding_dim cfg = (if py_in ''3-small'' (OPENAI_EMBEDDING_MODEL cfg) then 1536 else 3072)"

definition location_error :: error where
  "location_error = ValueError
     (''Pinecone cloud/region not configured. Set PINECONE_CLOUD and PINECONE_REGION in .env ''
      @ ''or provide legacy PINECONE_ENVIRONMENT that can be parsed.'')"

definition initialize_pinecone ::
  "('h, 'w) pinecone_env \<Rightarrow> 'h vector_store \<Rightarrow> 'w
     \<Rightarrow> 'h vector_store \<times> 'w \<times> event list \<times> (error + unit)" where
  "initialize_pinecone env self w =
     (case Pinecone_client env (PINECONE_API_KEY (vs_config self)) of
        Inl e \<Rightarrow> (self, w, [], Inl e)
      | Inr p \<Rightarrow>
          (let self1 = self\<lparr>vs_pc := Some p\<rparr>;
               dim = embedding_dim (vs_config self1)
           in case list_indexes env p w of
                Inl e \<Rightarrow> (self1, w, [], Inl e)
              | Inr existing \<Rightarrow>
                  (case
                     (if PINECONE_INDEX_NAME (vs_config self1) \<notin> set existing
                      then (let cloud = PINECONE_CLOUD (vs_config self1);
                                region = PINECONE_REGION (vs_config self1)
                            in if \<not> truthy cloud \<or> \<not> truthy region
                               then (w, [], Inl location_error)
                               else (case create_index env p (PINECONE_INDEX_NAME (vs_config self1))
                                            dim ''cosine'' (the cloud) (the region) w of
                                       (w', res) \<Rightarrow>
                                         (w', [CallCreateIndex (PINECONE_INDEX_NAME (vs_config self1))
                                                 dim ''cosine'' (the cloud) (the region)], res)))
                      else (w, [], Inr ()))
                   of
                     (w1, tr, Inl e) \<Rightarrow> (self1, w1, tr, Inl e)
                   | (w1, tr, Inr u) \<Rightarrow>
                       (case Index_client env p (PINECONE_INDEX_NAME (vs_config self1)) of
                          Inl e \<Rightarrow> (self1, w1, tr, Inl e)
                        | Inr ix \<Rightarrow> (self1\<lparr>vs_index := Some ix\<rparr>, w1, tr, Inr ())))))"

section \<open>Sample environments\<close>

text \<open>Concrete libraries and objects, on which the theorems below are run.\<close>

definition sample_config :: config where
  "sample_config =
     \<lparr>OPENAI_API_KEY = Some ''sk-test'', OPENAI_EMBEDDING_MODEL = ''text-embedding-3-small'',
      PINECONE_API_KEY = Some ''pc-test'', PINECONE_CLOUD = Some ''aws'',
      PINECONE_REGION = Some ''us-east-1'', PINECONE_INDEX_NAME = ''rag-index''\<rparr>"

definition sample_doc :: document where
  "sample_doc =
     \<lparr>page_content = ''The mitochondria is the powerhouse of the cell.'',
      metadata = [(''source'', ''bio.txt''), (''page'', ''3'')]\<rparr>"

definition sample_env ::
  "bool \<Rightarrow> bool \<Rightarrow> (error + document list) \<Rightarrow> (error + document list)
     \<Rightarrow> (error + document list) \<Rightarrow> (nat, real) retriever_env" where
  \<comment> \<open>The flag, whether the constructors succeed, and the outcome of each of the three searches.\<close>
  "sample_env hybrid up hy mmr sim =
     \<lparr>HAS_HYBRID = hybrid,
      Pinecone = (\<lambda>key. if up then Inr 11 else Inl (Exception ''connection refused'')),
      Index = (\<lambda>p name. Inr 12),
      OpenAIEmbeddings = (\<lambda>key model. Inr 13),
      PineconeHybridSearchRetriever = (\<lambda>em ix ns. Inr 14),
      from_existing_index = (\<lambda>name em ns. Inr 15),
      set_top_k = (\<lambda>r k. Inr r),
      set_alpha = (\<lambda>r a. Inl (Exception ''read-only attribute'')),
      get_relevant_documents = (\<lambda>r q. hy),
      max_marginal_relevance_search = (\<lambda>v q k fk. mmr),
      similarity_search = (\<lambda>v q k. sim),
      print_retrieval = (\<lambda>q k a fk. Inr ()),
      print_error = (\<lambda>e. Inr ())\<rparr>"



definition blank_retriever :: "nat hybrid_retriever" where
  \<comment> \<open>Neither strategy is set.\<close>
  "blank_retriever =
     \<lparr>config = sample_config, namespace = ''default'', pc = None, index = None,
      embeddings = None, retriever = None, vectorstore = None\<rparr>"

definition dense_retriever :: "nat hybrid_retriever" where
  "dense_retriever = blank_retriever\<lparr>vectorstore := Some 15\<rparr>"

definition hybrid_retriever0 :: "nat hybrid_retriever" where
  "hybrid_retriever0 = blank_retriever\<lparr>retriever := Some 14\<rparr>"

definition timeout_error :: error where
  "timeout_error = Exception ''timed out''"

definition sample_llm :: "(error + string) \<Rightarrow> unit llm_env" where
  \<comment> \<open>A model that fails or answers as given; a template with unbalanced braces is refused.\<close>
  "sample_llm answer =
     \<lparr>from_template = (\<lambda>t. if CHR ''{'' \<in> set t \<and> CHR ''}'' \<notin> set t
                            then Inl (ValueError ''invalid template'') else Inr ()),
      invoke = (\<lambda>p context question. answer),
      print_generation = Inr ()\<rparr>"

definition ascii_stdout :: "unit llm_env \<Rightarrow> unit llm_env" where
  \<comment> \<open>The same model, in a process whose standard output cannot encode the line printed
    after the generation.\<close>
  "ascii_stdout env = env\<lparr>print_generation := Inl (Exception ''codec can't encode character'')\<rparr>"

definition echo_llm :: "unit llm_env" where
  \<comment> \<open>A model that answers with the context it was given.\<close>
  "echo_llm =
     \<lparr>from_template = (\<lambda>t. Inr ()), invoke = (\<lambda>p context question. Inr context),
      print_generation = Inr ()\<rparr>"

definition sample_generator :: "unit generator" where
  "sample_generator = \<lparr>prompt_template = ()\<rparr>"

definition sample_service :: "(nat, unit) rag_service" where
  "sample_service =
     \<lparr>svc_retriever = dense_retriever, svc_generator = sample_generator, svc_namespace = ''default''\<rparr>"

definition dict_of :: "error + 'f pydict \<Rightarrow> 'f pydict" where
  \<comment> \<open>The dictionary a call returned; the empty one if it raised.\<close>
  "dict_of res = (case res of Inl e \<Rightarrow> Map.empty | Inr d \<Rightarrow> d)"

definition sample_pinecone :: "(nat, string list) pinecone_env" where
  \<comment> \<open>A service whose state is the list of the names of its indexes.\<close>
  "sample_pinecone =
     \<lparr>Pinecone_client = (\<lambda>key. if truthy key then Inr 21 else Inl (Exception ''missing api key'')),
      list_indexes = (\<lambda>p w. Inr w),
      create_index = (\<lambda>p name dim metric cloud region w. (w @ [name], Inr ())),
      Index_client = (\<lambda>p name. Inr 22)\<rparr>"

definition blank_store :: "nat vector_store" where
  "blank_store = \<lparr>vs_config = sample_config, vs_pc = None, vs_index = None\<rparr>"

definition unlocated_store :: "nat vector_store" where
  \<comment> \<open>The configuration has no region.\<close>
  "unlocated_store = blank_store\<lparr>vs_config := sample_config\<lparr>PINECONE_REGION := None\<rparr>\<rparr>"

definition created_listed :: "('h, 'w) pinecone_env \<Rightarrow> bool" where
  \<comment> \<open>The service lists an index once it has created it.\<close>
  "created_listed env =
     (\<forall>h name dim metric cloud region w w'.
        create_index env h name dim metric cloud region w = (w', Inr ()) \<longrightarrow>
        (\<exists>names. list_indexes env h w' = Inr names \<and> name \<in> set names))"


section \<open>Context composition\<close>













text \<open>
  C5. For the empty sequence of documents the composed context is the fixed sentinel
  string, which is not the empty string.
\<close>

theorem prepare_context_empty:
  "prepare_context [] = ''No relevant context found.'' \<and> prepare_context [] \<noteq> ''''"
  by (simp add: prepare_context_def)

section \<open>Retrieval\<close>

lemma retrieve_hybrid:
  "HAS_HYBRID env \<Longrightarrow> retriever self = Some r \<Longrightarrow>
   retrieve env self q top_k alpha fetch_k =
     (self\<lparr>retriever := Some (update_params env r top_k alpha)\<rparr>, [CallHybrid q],
      caught env
        (case get_relevant_documents env (update_params env r top_k alpha) q of
           Inl e \<Rightarrow> Inl e
         | Inr documents \<Rightarrow> log_retrieval env q top_k alpha fetch_k documents))"
  by (subst retrieve.simps) (simp add: Let_def caught_def split: sum.splits)

lemma retrieve_dense:
  "\<not> (HAS_HYBRID env \<and> retriever self \<noteq> None) \<Longrightarrow> vectorstore self = Some v \<Longrightarrow>
   retrieve env self q top_k alpha fetch_k =
     (self,
      (case max_marginal_relevance_search env v q top_k fetch_k of
         Inr documents \<Rightarrow> [CallMMR q top_k fetch_k]
       | Inl e \<Rightarrow> [CallMMR q top_k fetch_k, CallSimilarity q top_k]),
      caught env
        (case max_marginal_relevance_search env v q top_k fetch_k of
           Inr documents \<Rightarrow> log_retrieval env q top_k alpha fetch_k documents
         | Inl e \<Rightarrow>
             (case similarity_search env v q top_k of
                Inl e2 \<Rightarrow> Inl e2
              | Inr documents \<Rightarrow> log_retrieval env q top_k alpha fetch_k documents)))"
  by (subst retrieve.simps) (auto simp: Let_def caught_def split: sum.splits)

lemma retrieve_initialize:
  "needs_initialize env self \<Longrightarrow>
   retrieve env self q top_k alpha fetch_k =
     (case initialize_retriever env self of
        (self1, Inl e) \<Rightarrow> (self1, [CallInitialize], caught env (Inl e))
      | (self1, Inr u) \<Rightarrow>
          (fst (retrieve env self1 q top_k alpha fetch_k),
           CallInitialize # fst (snd (retrieve env self1 q top_k alpha fetch_k)),
           caught env (snd (snd (retrieve env self1 q top_k alpha fetch_k)))))"
  by (subst retrieve.simps)
    (auto simp: needs_initialize_def caught_def split: sum.splits prod.splits)

lemma retrieve_ready_cases:
  assumes "\<not> needs_initialize env self"
  obtains r where "HAS_HYBRID env" "retriever self = Some r"
  | v where "\<not> (HAS_HYBRID env \<and> retriever self \<noteq> None)" "vectorstore self = Some v"
proof (cases "HAS_HYBRID env \<and> retriever self \<noteq> None")
  case True
  then show thesis using that(1) by auto
next
  case False
  with assms obtain v where "vectorstore self = Some v"
    by (auto simp: needs_initialize_def)
  with False show thesis using that(2) by blast
qed

lemma retrieve_ready_trace:
  assumes "\<not> needs_initialize env self"
  shows "CallInitialize \<notin> set (fst (snd (retrieve env self q top_k alpha fetch_k)))"
  using assms
  by (rule retrieve_ready_cases) (simp_all add: retrieve_hybrid retrieve_dense split: sum.splits)


lemma initialize_retriever_strategy:
  "initialize_retriever env self = (self1, Inr u) \<Longrightarrow>
   (if HAS_HYBRID env then retriever self1 \<noteq> None \<and> vectorstore self1 = None
    else vectorstore self1 \<noteq> None \<and> retriever self1 = None)"
  by (auto simp: initialize_retriever_def Let_def split: sum.splits if_splits)

lemma retrieve_initialize_ok:
  assumes "needs_initialize env self" "initialize_retriever env self = (self1, Inr u)"
  shows "retrieve env self q top_k alpha fetch_k =
     (fst (retrieve env self1 q top_k alpha fetch_k),
      CallInitialize # fst (snd (retrieve env self1 q top_k alpha fetch_k)),
      caught env (snd (snd (retrieve env self1 q top_k alpha fetch_k))))"
  using assms by (simp add: retrieve_initialize)

lemma retrieve_initialize_failed:
  assumes "needs_initialize env self" "initialize_retriever env self = (self1, Inl e)"
  shows "retrieve env self q top_k alpha fetch_k = (self1, [CallInitialize], caught env (Inl e))"
  using assms by (simp add: retrieve_initialize)

lemma retrieve_no_llm:
  "CallLLM c qu \<notin> set (fst (snd (retrieve env self q top_k alpha fetch_k)))"
proof (cases "needs_initialize env self")
  case False
  then show ?thesis
    by (rule retrieve_ready_cases) (simp_all add: retrieve_hybrid retrieve_dense split: sum.splits)
next
  case True
  show ?thesis
  proof (cases "initialize_retriever env self")
    case (Pair self1 res)
    show ?thesis
    proof (cases res)
      case (Inl e)
      with True Pair show ?thesis by (simp add: retrieve_initialize_failed)
    next
      case (Inr u)
      with Pair have ok: "initialize_retriever env self = (self1, Inr u)" by simp
      then have "\<not> needs_initialize env self1" by (rule initialize_retriever_ready)
      then have "CallLLM c qu \<notin> set (fst (snd (retrieve env self1 q top_k alpha fetch_k)))"
        by (rule retrieve_ready_cases) (simp_all add: retrieve_hybrid retrieve_dense split: sum.splits)
      then show ?thesis by (simp add: retrieve_initialize_ok[OF True ok])
    qed
  qed
qed


lemma sample_env_simps:
  "HAS_HYBRID (sample_env hybrid up hy mmr sim) = hybrid"
  "get_relevant_documents (sample_env hybrid up hy mmr sim) r q = hy"
  "max_marginal_relevance_search (sample_env hybrid up hy mmr sim) v q k fk = mmr"
  "similarity_search (sample_env hybrid up hy mmr sim) v q k = sim"
  "update_params (sample_env hybrid up hy mmr sim) r k a = r"
  "print_retrieval (sample_env hybrid up hy mmr sim) q k a fk = Inr ()"
  "print_error (sample_env hybrid up hy mmr sim) e = Inr ()"
  by (simp_all add: sample_env_def update_params_def)



lemma sample_initialize_up:
  "initialize_retriever (sample_env hybrid True hy mmr sim) blank_retriever =
     (if hybrid
      then (blank_retriever\<lparr>pc := Some 11, index := Some 12, embeddings := Some 13, retriever := Some 14\<rparr>, Inr ())
      else (blank_retriever\<lparr>pc := Some 11, index := Some 12, embeddings := Some 13, vectorstore := Some 15\<rparr>, Inr ()))"
  by (simp add: initialize_retriever_def sample_env_def blank_retriever_def)

lemma sample_retriever_simps:
  "retriever blank_retriever = None" "vectorstore blank_retriever = None"
  "retriever dense_retriever = None" "vectorstore dense_retriever = Some 15"
  "retriever hybrid_retriever0 = Some 14" "vectorstore hybrid_retriever0 = None"
  by (simp_all add: blank_retriever_def dense_retriever_def hybrid_retriever0_def)



lemma retrieve_dense_ready:
  assumes "\<not> HAS_HYBRID env" "\<not> needs_initialize env self"
  shows "CallHybrid q' \<notin> set (fst (snd (retrieve env self q top_k alpha fetch_k)))"
    and "fst (retrieve env self q top_k alpha fetch_k) = fst (retrieve env self q top_k alpha' fetch_k)"
    and "fst (snd (retrieve env self q top_k alpha fetch_k))
          = fst (snd (retrieve env self q top_k alpha' fetch_k))"
proof -
  from assms obtain v where v: "vectorstore self = Some v"
    by (auto simp: needs_initialize_def)
  from assms(1) have c: "\<not> (HAS_HYBRID env \<and> retriever self \<noteq> None)" by simp
  show "CallHybrid q' \<notin> set (fst (snd (retrieve env self q top_k alpha fetch_k)))"
    by (simp add: retrieve_dense[OF c v] split: sum.splits)
  show "fst (retrieve env self q top_k alpha fetch_k) = fst (retrieve env self q top_k alpha' fetch_k)"
    by (simp add: retrieve_dense[OF c v])
  show "fst (snd (retrieve env self q top_k alpha fetch_k))
          = fst (snd (retrieve env self q top_k alpha' fetch_k))"
    by (simp add: retrieve_dense[OF c v])
qed

lemma retrieve_dense_all:
  assumes "\<not> HAS_HYBRID env"
  shows "CallHybrid q' \<notin> set (fst (snd (retrieve env self q top_k alpha fetch_k)))"
    and "fst (retrieve env self q top_k alpha fetch_k) = fst (retrieve env self q top_k alpha' fetch_k)"
    and "fst (snd (retrieve env self q top_k alpha fetch_k))
          = fst (snd (retrieve env self q top_k alpha' fetch_k))"
proof -
  have "CallHybrid q' \<notin> set (fst (snd (retrieve env self q top_k alpha fetch_k)))
      \<and> fst (retrieve env self q top_k alpha fetch_k) = fst (retrieve env self q top_k alpha' fetch_k)
      \<and> fst (snd (retrieve env self q top_k alpha fetch_k))
          = fst (snd (retrieve env self q top_k alpha' fetch_k))"
  proof (cases "needs_initialize env self")
    case False
    show ?thesis
      using retrieve_dense_ready[OF assms False] by blast
  next
    case True
    show ?thesis
    proof (cases "initialize_retriever env self")
      case (Pair self1 res)
      show ?thesis
      proof (cases res)
        case (Inl e)
        with True Pair show ?thesis by (simp add: retrieve_initialize_failed)
      next
        case (Inr u)
        with Pair have ok: "initialize_retriever env self = (self1, Inr u)" by simp
        then have r: "\<not> needs_initialize env self1" by (rule initialize_retriever_ready)
        show ?thesis
          using retrieve_dense_ready(1)[OF assms r, of q' q top_k alpha fetch_k]
            retrieve_dense_ready(2)[OF assms r, of q top_k alpha fetch_k alpha']
            retrieve_dense_ready(3)[OF assms r, of q top_k alpha fetch_k alpha']
          by (simp add: retrieve_initialize_ok[OF True ok])
      qed
    qed
  qed
  then show "CallHybrid q' \<notin> set (fst (snd (retrieve env self q top_k alpha fetch_k)))"
    and "fst (retrieve env self q top_k alpha fetch_k) = fst (retrieve env self q top_k alpha' fetch_k)"
    and "fst (snd (retrieve env self q top_k alpha fetch_k))
          = fst (snd (retrieve env self q top_k alpha' fetch_k))"
    by blast+
qed

lemma retrieve_dense_alpha:
  assumes h: "\<not> HAS_HYBRID env"
    and p: "print_retrieval env q top_k alpha fetch_k = print_retrieval env q top_k alpha' fetch_k"
  shows "retrieve env self q top_k alpha fetch_k = retrieve env self q top_k alpha' fetch_k"
proof -
  have ready: "retrieve env s q top_k alpha fetch_k = retrieve env s q top_k alpha' fetch_k"
    if r: "\<not> needs_initialize env s" for s
  proof -
    from h r obtain v where v: "vectorstore s = Some v"
      by (auto simp: needs_initialize_def)
    from h have c: "\<not> (HAS_HYBRID env \<and> retriever s \<noteq> None)" by simp
    have l: "log_retrieval env q top_k alpha fetch_k d = log_retrieval env q top_k alpha' fetch_k d"
      for d
      by (simp add: log_retrieval_def p)
    show ?thesis
      by (simp add: retrieve_dense[OF c v] l split: sum.splits)
  qed
  show ?thesis
  proof (cases "needs_initialize env self")
    case False
    then show ?thesis by (rule ready)
  next
    case True
    show ?thesis
    proof (cases "initialize_retriever env self")
      case (Pair self1 res)
      show ?thesis
      proof (cases res)
        case (Inl e)
        with True Pair show ?thesis by (simp add: retrieve_initialize_failed)
      next
        case (Inr u)
        with Pair have ok: "initialize_retriever env self = (self1, Inr u)" by simp
        then have "\<not> needs_initialize env self1" by (rule initialize_retriever_ready)
        then have "retrieve env self1 q top_k alpha fetch_k = retrieve env self1 q top_k alpha' fetch_k"
          by (rule ready)
        then show ?thesis
          by (simp add: retrieve_initialize_ok[OF True ok])
      qed
    qed
  qed
qed

text \<open>
  C7. When the hybrid capability is absent, \<open>retrieve\<close> never calls the hybrid search, and
  the calls it makes and the state it leaves are the same for every \<open>alpha\<close> (and so is the
  result, where the line printed after the search is written alike). With the
  dense vector store set, it calls the maximal-marginal-relevance search with
  \<open>k = top_k\<close> and \<open>fetch_k\<close>; if that search raises, it calls the similarity search with
  the same \<open>top_k\<close>. Where the line after the search is printed, the result is the
  documents of the search that succeeded.
\<close>

theorem retrieve_dense_only:
  "\<not> HAS_HYBRID env \<Longrightarrow>
   (\<forall>q'. CallHybrid q' \<notin> set (fst (snd (retrieve env self q top_k alpha fetch_k))))
   \<and> fst (retrieve env self q top_k alpha fetch_k) = fst (retrieve env self q top_k alpha' fetch_k)
   \<and> fst (snd (retrieve env self q top_k alpha fetch_k))
       = fst (snd (retrieve env self q top_k alpha' fetch_k))
   \<and> (print_retrieval env q top_k alpha fetch_k = print_retrieval env q top_k alpha' fetch_k \<longrightarrow>
        retrieve env self q top_k alpha fetch_k = retrieve env self q top_k alpha' fetch_k)
   \<and> (vectorstore self = Some v \<longrightarrow>
        fst (snd (retrieve env self q top_k alpha fetch_k)) =
          (case max_marginal_relevance_search env v q top_k fetch_k of
             Inr documents \<Rightarrow> [CallMMR q top_k fetch_k]
           | Inl e \<Rightarrow> [CallMMR q top_k fetch_k, CallSimilarity q top_k])
        \<and> (print_retrieval env q top_k alpha fetch_k = Inr () \<longrightarrow>
             snd (snd (retrieve env self q top_k alpha fetch_k)) =
               (case max_marginal_relevance_search env v q top_k fetch_k of
                  Inr documents \<Rightarrow> Inr documents
                | Inl e \<Rightarrow>
                    (case similarity_search env v q top_k of
                       Inr documents \<Rightarrow> Inr documents
                     | Inl e2 \<Rightarrow>
                         (case print_error env e2 of Inl e' \<Rightarrow> Inl e' | Inr u \<Rightarrow> Inr [])))))"
proof (intro conjI impI allI)
  assume h: "\<not> HAS_HYBRID env"
  show "CallHybrid q' \<notin> set (fst (snd (retrieve env self q top_k alpha fetch_k)))" for q'
    using h by (rule retrieve_dense_all)
  show "fst (retrieve env self q top_k alpha fetch_k) = fst (retrieve env self q top_k alpha' fetch_k)"
    using h by (rule retrieve_dense_all)
  show "fst (snd (retrieve env self q top_k alpha fetch_k))
       = fst (snd (retrieve env self q top_k alpha' fetch_k))"
    using h by (rule retrieve_dense_all)
  show "retrieve env self q top_k alpha fetch_k = retrieve env self q top_k alpha' fetch_k"
    if "print_retrieval env q top_k alpha fetch_k = print_retrieval env q top_k alpha' fetch_k"
    using h that by (rule retrieve_dense_alpha)
  show "fst (snd (retrieve env self q top_k alpha fetch_k)) =
          (case max_marginal_relevance_search env v q top_k fetch_k of
             Inr documents \<Rightarrow> [CallMMR q top_k fetch_k]
           | Inl e \<Rightarrow> [CallMMR q top_k fetch_k, CallSimilarity q top_k])"
    if "vectorstore self = Some v"
    using h that by (simp add: retrieve_dense)
  show "snd (snd (retrieve env self q top_k alpha fetch_k)) =
               (case max_marginal_relevance_search env v q top_k fetch_k of
                  Inr documents \<Rightarrow> Inr documents
                | Inl e \<Rightarrow>
                    (case similarity_search env v q top_k of
                       Inr documents \<Rightarrow> Inr documents
                     | Inl e2 \<Rightarrow>
                         (case print_error env e2 of Inl e' \<Rightarrow> Inl e' | Inr u \<Rightarrow> Inr [])))"
    if "vectorstore self = Some v" "print_retrieval env q top_k alpha fetch_k = Inr ()"
    using h that by (simp add: retrieve_dense caught_def log_retrieval_def split: sum.splits)
qed

theorem retrieve_dense_only_witness:
  "(\<forall>q'. CallHybrid q' \<notin> set (fst (snd (retrieve
        (sample_env False True (Inr [sample_doc]) (Inl timeout_error) (Inr [sample_doc, sample_doc]))
        dense_retriever ''what is atp'' 2 0 20))))
   \<and> fst (snd (retrieve
        (sample_env False True (Inr [sample_doc]) (Inl timeout_error) (Inr [sample_doc, sample_doc]))
        dense_retriever ''what is atp'' 2 0 20)) =
      fst (snd (retrieve
        (sample_env False True (Inr [sample_doc]) (Inl timeout_error) (Inr [sample_doc, sample_doc]))
        dense_retriever ''what is atp'' 2 1 20))
   \<and> retrieve
        (sample_env False True (Inr [sample_doc]) (Inl timeout_error) (Inr [sample_doc, sample_doc]))
        dense_retriever ''what is atp'' 2 0 20 =
      retrieve
        (sample_env False True (Inr [sample_doc]) (Inl timeout_error) (Inr [sample_doc, sample_doc]))
        dense_retriever ''what is atp'' 2 1 20
   \<and> fst (snd (retrieve
        (sample_env False True (Inr [sample_doc]) (Inl timeout_error) (Inr [sample_doc, sample_doc]))
        dense_retriever ''what is atp'' 2 0 20)) =
      [CallMMR ''what is atp'' 2 20, CallSimilarity ''what is atp'' 2]
   \<and> snd (snd (retrieve
        (sample_env False True (Inr [sample_doc]) (Inl timeout_error) (Inr [sample_doc, sample_doc]))
        dense_retriever ''what is atp'' 2 0 20)) = Inr [sample_doc, sample_doc]"
proof -
  let ?env = "sample_env False True (Inr [sample_doc]) (Inl timeout_error) (Inr [sample_doc, sample_doc])"
  have h: "\<not> HAS_HYBRID ?env" by (simp add: sample_env_simps)
  have v: "vectorstore dense_retriever = Some 15" by (simp add: sample_retriever_simps)
  have p: "print_retrieval ?env ''what is atp'' 2 0 20 = Inr ()" by (simp add: sample_env_simps)
  note t = retrieve_dense_only[OF h, of dense_retriever "''what is atp''" 2 0 20 1 15]
  from t have "\<forall>q'. CallHybrid q' \<notin> set (fst (snd (retrieve ?env dense_retriever ''what is atp'' 2 0 20)))"
    by (rule conjunct1)
  moreover from t have "fst (snd (retrieve ?env dense_retriever ''what is atp'' 2 0 20)) =
      fst (snd (retrieve ?env dense_retriever ''what is atp'' 2 1 20))"
    by blast
  moreover have "retrieve ?env dense_retriever ''what is atp'' 2 0 20 =
      retrieve ?env dense_retriever ''what is atp'' 2 1 20"
  proof -
    have "print_retrieval ?env ''what is atp'' 2 0 20 = print_retrieval ?env ''what is atp'' 2 1 20"
      by (simp add: sample_env_simps)
    with t show ?thesis by blast
  qed
  moreover have "fst (snd (retrieve ?env dense_retriever ''what is atp'' 2 0 20)) =
      [CallMMR ''what is atp'' 2 20, CallSimilarity ''what is atp'' 2]"
  proof -
    from t v have "fst (snd (retrieve ?env dense_retriever ''what is atp'' 2 0 20)) =
          (case max_marginal_relevance_search ?env 15 ''what is atp'' 2 20 of
             Inr documents \<Rightarrow> [CallMMR ''what is atp'' 2 20]
           | Inl e \<Rightarrow> [CallMMR ''what is atp'' 2 20, CallSimilarity ''what is atp'' 2])"
      by blast
    then show ?thesis by (simp add: sample_env_simps timeout_error_def)
  qed
  moreover have "snd (snd (retrieve ?env dense_retriever ''what is atp'' 2 0 20))
      = Inr [sample_doc, sample_doc]"
  proof -
    from t v p have "snd (snd (retrieve ?env dense_retriever ''what is atp'' 2 0 20)) =
               (case max_marginal_relevance_search ?env 15 ''what is atp'' 2 20 of
                  Inr documents \<Rightarrow> Inr documents
                | Inl e \<Rightarrow>
                    (case similarity_search ?env 15 ''what is atp'' 2 of
                       Inr documents \<Rightarrow> Inr documents
                     | Inl e2 \<Rightarrow>
                         (case print_error ?env e2 of Inl e' \<Rightarrow> Inl e' | Inr u \<Rightarrow> Inr [])))"
      by blast
    then show ?thesis by (simp add: sample_env_simps timeout_error_def)
  qed
  ultimately show ?thesis by blast
qed

lemma initialize_retriever_hybrid:
  assumes "Pinecone env (PINECONE_API_KEY (config self)) = Inr p"
    and "Index env p (PINECONE_INDEX_NAME (config self)) = Inr ix"
    and "OpenAIEmbeddings env (OPENAI_API_KEY (config self)) (OPENAI_EMBEDDING_MODEL (config self))
          = Inr em"
    and "HAS_HYBRID env"
    and "PineconeHybridSearchRetriever env em ix (namespace self) = Inr r"
  shows "initialize_retriever env self =
     (self\<lparr>pc := Some p, index := Some ix, embeddings := Some em, retriever := Some r,
            vectorstore := None\<rparr>, Inr ())"
  using assms by (simp add: initialize_retriever_def Let_def)

lemma initialize_retriever_dense:
  assumes "Pinecone env (PINECONE_API_KEY (config self)) = Inr p"
    and "Index env p (PINECONE_INDEX_NAME (config self)) = Inr ix"
    and "OpenAIEmbeddings env (OPENAI_API_KEY (config self)) (OPENAI_EMBEDDING_MODEL (config self))
          = Inr em"
    and "\<not> HAS_HYBRID env"
    and "from_existing_index env (PINECONE_INDEX_NAME (config self)) em (namespace self) = Inr v"
  shows "initialize_retriever env self =
     (self\<lparr>pc := Some p, index := Some ix, embeddings := Some em, vectorstore := Some v,
            retriever := None\<rparr>, Inr ())"
  using assms by (simp add: initialize_retriever_def Let_def)

lemma retrieve_initialize_count:
  "count_list (fst (snd (retrieve env self q top_k alpha fetch_k))) CallInitialize \<le> 1"
proof (cases "needs_initialize env self")
  case False
  then have "CallInitialize \<notin> set (fst (snd (retrieve env self q top_k alpha fetch_k)))"
    by (rule retrieve_ready_trace)
  then show ?thesis by (simp add: count_list_0_iff)
next
  case True
  show ?thesis
  proof (cases "initialize_retriever env self")
    case (Pair s1 res)
    show ?thesis
    proof (cases res)
      case (Inl e)
      with True Pair show ?thesis by (simp add: retrieve_initialize_failed)
    next
      case (Inr u')
      with Pair have ok: "initialize_retriever env self = (s1, Inr u')" by simp
      then have "\<not> needs_initialize env s1" by (rule initialize_retriever_ready)
      then have "CallInitialize \<notin> set (fst (snd (retrieve env s1 q top_k alpha fetch_k)))"
        by (rule retrieve_ready_trace)
      then show ?thesis
        by (simp add: retrieve_initialize_ok[OF True ok] count_list_0_iff)
    qed
  qed
qed

text \<open>
  C10. Where its constructors succeed, \<open>_initialize_retriever\<close> succeeds and sets exactly
  one of the hybrid retriever and the dense vector store, the one that \<open>HAS_HYBRID\<close>
  selects. The retry therefore does not reach the fallback branch again: the recursion of
  \<open>retrieve\<close> is well-founded (the function is total), the retried call initializes
  nothing, and every call initializes, hence calls itself, at most once.
\<close>

theorem retrieve_reinitializes_at_most_once:
  "(Pinecone env (PINECONE_API_KEY (config self)) = Inr p
      \<and> Index env p (PINECONE_INDEX_NAME (config self)) = Inr ix
      \<and> OpenAIEmbeddings env (OPENAI_API_KEY (config self)) (OPENAI_EMBEDDING_MODEL (config self))
          = Inr em
    \<longrightarrow> (HAS_HYBRID env \<and> PineconeHybridSearchRetriever env em ix (namespace self) = Inr r
          \<longrightarrow> initialize_retriever env self =
                (self\<lparr>pc := Some p, index := Some ix, embeddings := Some em, retriever := Some r,
                       vectorstore := None\<rparr>, Inr ()))
       \<and> (\<not> HAS_HYBRID env
            \<and> from_existing_index env (PINECONE_INDEX_NAME (config self)) em (namespace self) = Inr v
          \<longrightarrow> initialize_retriever env self =
                (self\<lparr>pc := Some p, index := Some ix, embeddings := Some em, vectorstore := Some v,
                       retriever := None\<rparr>, Inr ())))
   \<and> (initialize_retriever env self = (self1, Inr u) \<longrightarrow>
        (if HAS_HYBRID env then retriever self1 \<noteq> None \<and> vectorstore self1 = None
         else vectorstore self1 \<noteq> None \<and> retriever self1 = None)
        \<and> \<not> needs_initialize env self1
        \<and> CallInitialize \<notin> set (fst (snd (retrieve env self1 q top_k alpha fetch_k))))
   \<and> count_list (fst (snd (retrieve env self q top_k alpha fetch_k))) CallInitialize \<le> 1
   \<and> (needs_initialize env self \<longrightarrow>
        count_list (fst (snd (retrieve env self q top_k alpha fetch_k))) CallInitialize = 1)"
proof (intro conjI impI)
  assume c: "Pinecone env (PINECONE_API_KEY (config self)) = Inr p
      \<and> Index env p (PINECONE_INDEX_NAME (config self)) = Inr ix
      \<and> OpenAIEmbeddings env (OPENAI_API_KEY (config self)) (OPENAI_EMBEDDING_MODEL (config self))
          = Inr em"
  show "initialize_retriever env self =
                (self\<lparr>pc := Some p, index := Some ix, embeddings := Some em, retriever := Some r,
                       vectorstore := None\<rparr>, Inr ())"
    if "HAS_HYBRID env \<and> PineconeHybridSearchRetriever env em ix (namespace self) = Inr r"
    using c that by (simp add: initialize_retriever_hybrid)
  show "initialize_retriever env self =
                (self\<lparr>pc := Some p, index := Some ix, embeddings := Some em, vectorstore := Some v,
                       retriever := None\<rparr>, Inr ())"
    if "\<not> HAS_HYBRID env
            \<and> from_existing_index env (PINECONE_INDEX_NAME (config self)) em (namespace self) = Inr v"
    using c that by (simp add: initialize_retriever_dense)
next
  assume ok: "initialize_retriever env self = (self1, Inr u)"
  then show "if HAS_HYBRID env then retriever self1 \<noteq> None \<and> vectorstore self1 = None
       else vectorstore self1 \<noteq> None \<and> retriever self1 = None"
    by (rule initialize_retriever_strategy)
  from ok show r: "\<not> needs_initialize env self1"
    by (rule initialize_retriever_ready)
  from r show "CallInitialize \<notin> set (fst (snd (retrieve env self1 q top_k alpha fetch_k)))"
    by (rule retrieve_ready_trace)
next
  show "count_list (fst (snd (retrieve env self q top_k alpha fetch_k))) CallInitialize \<le> 1"
    by (rule retrieve_initialize_count)
next
  assume n: "needs_initialize env self"
  show "count_list (fst (snd (retrieve env self q top_k alpha fetch_k))) CallInitialize = 1"
  proof (cases "initialize_retriever env self")
    case (Pair s1 res)
    show ?thesis
    proof (cases res)
      case (Inl e)
      with n Pair show ?thesis by (simp add: retrieve_initialize_failed)
    next
      case (Inr u')
      with Pair have ok: "initialize_retriever env self = (s1, Inr u')" by simp
      then have "\<not> needs_initialize env s1" by (rule initialize_retriever_ready)
      then have "CallInitialize \<notin> set (fst (snd (retrieve env s1 q top_k alpha fetch_k)))"
        by (rule retrieve_ready_trace)
      then show ?thesis
        by (simp add: retrieve_initialize_ok[OF n ok] count_list_0_iff)
    qed
  qed
qed

lemma sample_env_constructors:
  "Pinecone (sample_env hybrid True hy mmr sim) key = Inr 11"
  "Index (sample_env hybrid up hy mmr sim) p name = Inr 12"
  "OpenAIEmbeddings (sample_env hybrid up hy mmr sim) key model = Inr 13"
  "PineconeHybridSearchRetriever (sample_env hybrid up hy mmr sim) em ix ns = Inr 14"
  "from_existing_index (sample_env hybrid up hy mmr sim) name em ns = Inr 15"
  by (simp_all add: sample_env_def)

theorem retrieve_reinitializes_at_most_once_witness:
  "initialize_retriever (sample_env True True (Inr [sample_doc]) (Inr [sample_doc]) (Inr [sample_doc]))
      blank_retriever =
     (blank_retriever\<lparr>pc := Some 11, index := Some 12, embeddings := Some 13, retriever := Some 14,
        vectorstore := None\<rparr>, Inr ())
   \<and> initialize_retriever (sample_env False True (Inr [sample_doc]) (Inr [sample_doc]) (Inr [sample_doc]))
      blank_retriever =
     (blank_retriever\<lparr>pc := Some 11, index := Some 12, embeddings := Some 13, vectorstore := Some 15,
        retriever := None\<rparr>, Inr ())
   \<and> CallInitialize \<notin> set (fst (snd (retrieve
        (sample_env False True (Inr [sample_doc]) (Inr [sample_doc]) (Inr [sample_doc]))
        (blank_retriever\<lparr>pc := Some 11, index := Some 12, embeddings := Some 13,
           vectorstore := Some 15, retriever := None\<rparr>) ''what is atp'' 5 (1 / 2) 20)))
   \<and> count_list (fst (snd (retrieve
        (sample_env False True (Inr [sample_doc]) (Inr [sample_doc]) (Inr [sample_doc]))
        blank_retriever ''what is atp'' 5 (1 / 2) 20))) CallInitialize = 1"
proof -
  let ?h = "sample_env True True (Inr [sample_doc]) (Inr [sample_doc]) (Inr [sample_doc])"
  let ?d = "sample_env False True (Inr [sample_doc]) (Inr [sample_doc]) (Inr [sample_doc])"
  let ?s = "blank_retriever\<lparr>pc := Some 11, index := Some 12, embeddings := Some 13,
           vectorstore := Some 15, retriever := None\<rparr>"
  have a: "initialize_retriever ?h blank_retriever =
     (blank_retriever\<lparr>pc := Some 11, index := Some 12, embeddings := Some 13, retriever := Some 14,
        vectorstore := None\<rparr>, Inr ())"
    using retrieve_reinitializes_at_most_once[of ?h blank_retriever 11 12 13 14]
    by (simp add: sample_env_constructors sample_env_simps)
  have b: "initialize_retriever ?d blank_retriever = (?s, Inr ())"
    using retrieve_reinitializes_at_most_once[of ?d blank_retriever 11 12 13 _ 15]
    by (simp add: sample_env_constructors sample_env_simps)
  have c: "CallInitialize \<notin> set (fst (snd (retrieve ?d ?s ''what is atp'' 5 (1 / 2) 20)))"
    using retrieve_reinitializes_at_most_once[of ?d blank_retriever _ _ _ _ _ ?s "()"
        "''what is atp''" 5 "1 / 2" 20] b
    by blast
  have n: "needs_initialize ?d blank_retriever"
    by (simp add: needs_initialize_def sample_retriever_simps)
  have d: "count_list (fst (snd (retrieve ?d blank_retriever ''what is atp'' 5 (1 / 2) 20)))
      CallInitialize = 1"
    using retrieve_reinitializes_at_most_once[of ?d blank_retriever _ _ _ _ _ _ _
        "''what is atp''" 5 "1 / 2" 20] n
    by blast
  from a b c d show ?thesis by blast
qed

section \<open>Generation\<close>

lemma generate_response_returns:
  "\<exists>tr result. (generate_response env self question docs custom_prompt
      :: event list \<times> (error + 'f pydict)) = (tr, Inr result)"
  by (auto simp: generate_response_def Let_def split: sum.splits prod.splits)

lemma generate_response_error:
  assumes "select_prompt env self custom_prompt = Inr prompt"
    and "invoke env prompt (prepare_context docs) question = Inl e"
  shows "generate_response env self question docs custom_prompt =
     ([CallLLM (prepare_context docs) question],
      Inr [''status'' \<mapsto> PyStr ''error'', ''message'' \<mapsto> PyStr (str_exc e),
           ''answer'' \<mapsto> PyNone, ''context_used'' \<mapsto> PyInt 0, ''question'' \<mapsto> PyStr question])"
  using assms by (simp add: generate_response_def Let_def)

lemma generate_response_print_error:
  assumes "select_prompt env self custom_prompt = Inr prompt"
    and "invoke env prompt (prepare_context docs) question = Inr content"
    and "print_generation env = Inl e"
  shows "generate_response env self question docs custom_prompt =
     ([CallLLM (prepare_context docs) question],
      Inr [''status'' \<mapsto> PyStr ''error'', ''message'' \<mapsto> PyStr (str_exc e),
           ''answer'' \<mapsto> PyNone, ''context_used'' \<mapsto> PyInt 0, ''question'' \<mapsto> PyStr question])"
  using assms by (simp add: generate_response_def Let_def)

lemma generate_response_success:
  assumes "select_prompt env self custom_prompt = Inr prompt"
    and "invoke env prompt (prepare_context docs) question = Inr content"
    and "print_generation env = Inr ()"
  shows "generate_response env self question docs custom_prompt =
     ([CallLLM (prepare_context docs) question],
      Inr [''status'' \<mapsto> PyStr ''success'', ''answer'' \<mapsto> PyStr content,
           ''context_used'' \<mapsto> PyInt (int (length docs)), ''question'' \<mapsto> PyStr question])"
  using assms by (simp add: generate_response_def Let_def)

text \<open>
  C3, as the code has it. \<open>generate_response\<close> always returns a result dictionary, never
  an exception. When the model invocation raises, the result has status \<open>error\<close>, the
  message of the exception, answer \<open>None\<close> and \<open>context_used = 0\<close>. When the model
  invocation succeeds and the line printed after it is written, the result has status
  \<open>success\<close>, the model's answer, and \<open>context_used\<close> the number of input documents; when
  that \<open>print\<close> raises, the result is the error dictionary although the model answered.
\<close>

theorem generate_response_boundary:
  "(\<exists>tr result. (generate_response env self question docs custom_prompt
        :: event list \<times> (error + 'f pydict)) = (tr, Inr result))
   \<and> (select_prompt env self custom_prompt = Inr prompt
        \<and> invoke env prompt (prepare_context docs) question = Inl e \<longrightarrow>
        (\<exists>tr result. (generate_response env self question docs custom_prompt
            :: event list \<times> (error + 'f pydict)) = (tr, Inr result)
          \<and> result ''status'' = Some (PyStr ''error'')
          \<and> result ''message'' = Some (PyStr (str_exc e))
          \<and> result ''answer'' = Some PyNone
          \<and> result ''context_used'' = Some (PyInt 0)))
   \<and> (select_prompt env self custom_prompt = Inr prompt
        \<and> invoke env prompt (prepare_context docs) question = Inr content
        \<and> print_generation env = Inr () \<longrightarrow>
        (\<exists>tr result. (generate_response env self question docs custom_prompt
            :: event list \<times> (error + 'f pydict)) = (tr, Inr result)
          \<and> result ''status'' = Some (PyStr ''success'')
          \<and> result ''answer'' = Some (PyStr content)
          \<and> result ''context_used'' = Some (PyInt (int (length docs)))))
   \<and> (select_prompt env self custom_prompt = Inr prompt
        \<and> invoke env prompt (prepare_context docs) question = Inr content
        \<and> print_generation env = Inl e \<longrightarrow>
        (\<exists>tr result. (generate_response env self question docs custom_prompt
            :: event list \<times> (error + 'f pydict)) = (tr, Inr result)
          \<and> result ''status'' = Some (PyStr ''error'')
          \<and> result ''message'' = Some (PyStr (str_exc e))
          \<and> result ''answer'' = Some PyNone
          \<and> result ''context_used'' = Some (PyInt 0)))"
proof (intro conjI impI)
  show "\<exists>tr result. (generate_response env self question docs custom_prompt
        :: event list \<times> (error + 'f pydict)) = (tr, Inr result)"
    by (rule generate_response_returns)
next
  assume "select_prompt env self custom_prompt = Inr prompt
        \<and> invoke env prompt (prepare_context docs) question = Inl e"
  then show "\<exists>tr result. (generate_response env self question docs custom_prompt
            :: event list \<times> (error + 'f pydict)) = (tr, Inr result)
          \<and> result ''status'' = Some (PyStr ''error'')
          \<and> result ''message'' = Some (PyStr (str_exc e))
          \<and> result ''answer'' = Some PyNone
          \<and> result ''context_used'' = Some (PyInt 0)"
    by (simp add: generate_response_error)
next
  assume "select_prompt env self custom_prompt = Inr prompt
        \<and> invoke env prompt (prepare_context docs) question = Inr content
        \<and> print_generation env = Inr ()"
  then show "\<exists>tr result. (generate_response env self question docs custom_prompt
            :: event list \<times> (error + 'f pydict)) = (tr, Inr result)
          \<and> result ''status'' = Some (PyStr ''success'')
          \<and> result ''answer'' = Some (PyStr content)
          \<and> result ''context_used'' = Some (PyInt (int (length docs)))"
    by (simp add: generate_response_success)
next
  assume "select_prompt env self custom_prompt = Inr prompt
        \<and> invoke env prompt (prepare_context docs) question = Inr content
        \<and> print_generation env = Inl e"
  then show "\<exists>tr result. (generate_response env self question docs custom_prompt
            :: event list \<times> (error + 'f pydict)) = (tr, Inr result)
          \<and> result ''status'' = Some (PyStr ''error'')
          \<and> result ''message'' = Some (PyStr (str_exc e))
          \<and> result ''answer'' = Some PyNone
          \<and> result ''context_used'' = Some (PyInt 0)"
    by (simp add: generate_response_print_error)
qed

lemma sample_llm_simps:
  "select_prompt (sample_llm answer) sample_generator None = Inr ()"
  "invoke (sample_llm answer) p c q = answer"
  "print_generation (sample_llm answer) = Inr ()"
  "select_prompt (ascii_stdout (sample_llm answer)) sample_generator None = Inr ()"
  "invoke (ascii_stdout (sample_llm answer)) p c q = answer"
  "print_generation (ascii_stdout (sample_llm answer)) = Inl (Exception ''codec can't encode character'')"
  by (simp_all add: sample_llm_def select_prompt_def truthy_def sample_generator_def ascii_stdout_def)

theorem generate_response_boundary_witness:
  "(\<exists>tr result. (generate_response (sample_llm (Inl timeout_error)) sample_generator
        ''what is atp'' [sample_doc, sample_doc] None :: event list \<times> (error + real pydict))
        = (tr, Inr result)
      \<and> result ''status'' = Some (PyStr ''error'')
      \<and> result ''message'' = Some (PyStr ''timed out'')
      \<and> result ''answer'' = Some PyNone
      \<and> result ''context_used'' = Some (PyInt 0))
   \<and> (\<exists>tr result. (generate_response (sample_llm (Inr ''energy'')) sample_generator
        ''what is atp'' [sample_doc, sample_doc] None :: event list \<times> (error + real pydict))
        = (tr, Inr result)
      \<and> result ''status'' = Some (PyStr ''success'')
      \<and> result ''answer'' = Some (PyStr ''energy'')
      \<and> result ''context_used'' = Some (PyInt 2))
   \<and> (\<exists>tr result. (generate_response (ascii_stdout (sample_llm (Inr ''energy''))) sample_generator
        ''what is atp'' [sample_doc, sample_doc] None :: event list \<times> (error + real pydict))
        = (tr, Inr result)
      \<and> result ''status'' = Some (PyStr ''error'')
      \<and> result ''message'' = Some (PyStr ''codec can't encode character'')
      \<and> result ''answer'' = Some PyNone
      \<and> result ''context_used'' = Some (PyInt 0))"
proof (intro conjI)
  show "\<exists>tr result. (generate_response (sample_llm (Inl timeout_error)) sample_generator
        ''what is atp'' [sample_doc, sample_doc] None :: event list \<times> (error + real pydict))
        = (tr, Inr result)
      \<and> result ''status'' = Some (PyStr ''error'')
      \<and> result ''message'' = Some (PyStr ''timed out'')
      \<and> result ''answer'' = Some PyNone
      \<and> result ''context_used'' = Some (PyInt 0)"
    using generate_response_boundary[of "sample_llm (Inl timeout_error)" sample_generator
        "''what is atp''" "[sample_doc, sample_doc]" None "()" timeout_error,
        where ?'f = real]
    by (simp add: sample_llm_simps timeout_error_def)
  show "\<exists>tr result. (generate_response (sample_llm (Inr ''energy'')) sample_generator
        ''what is atp'' [sample_doc, sample_doc] None :: event list \<times> (error + real pydict))
        = (tr, Inr result)
      \<and> result ''status'' = Some (PyStr ''success'')
      \<and> result ''answer'' = Some (PyStr ''energy'')
      \<and> result ''context_used'' = Some (PyInt 2)"
    using generate_response_boundary[of "sample_llm (Inr ''energy'')" sample_generator
        "''what is atp''" "[sample_doc, sample_doc]" None "()" _ "''energy''",
        where ?'f = real]
    by (simp add: sample_llm_simps)
  show "\<exists>tr result. (generate_response (ascii_stdout (sample_llm (Inr ''energy''))) sample_generator
        ''what is atp'' [sample_doc, sample_doc] None :: event list \<times> (error + real pydict))
        = (tr, Inr result)
      \<and> result ''status'' = Some (PyStr ''error'')
      \<and> result ''message'' = Some (PyStr ''codec can't encode character'')
      \<and> result ''answer'' = Some PyNone
      \<and> result ''context_used'' = Some (PyInt 0)"
    using generate_response_boundary[of "ascii_stdout (sample_llm (Inr ''energy''))" sample_generator
        "''what is atp''" "[sample_doc, sample_doc]" None "()"
        "Exception ''codec can't encode character''" "''energy''", where ?'f = real]
    by (simp add: sample_llm_simps)
qed

theorem generate_response_print_failure:
  "invoke (ascii_stdout (sample_llm (Inr ''energy''))) () (prepare_context [sample_doc, sample_doc])
      ''what is atp'' = Inr ''energy''
   \<and> dict_of (snd (generate_response (ascii_stdout (sample_llm (Inr ''energy''))) sample_generator
        ''what is atp'' [sample_doc, sample_doc] None :: event list \<times> (error + real pydict)))
        ''status'' = Some (PyStr ''error'')
   \<and> dict_of (snd (generate_response (ascii_stdout (sample_llm (Inr ''energy''))) sample_generator
        ''what is atp'' [sample_doc, sample_doc] None :: event list \<times> (error + real pydict)))
        ''context_used'' = Some (PyInt 0)"
  by (simp add: generate_response_def Let_def sample_llm_simps dict_of_def)

section \<open>Orchestration\<close>

lemma generate_with_sources_returns:
  "\<exists>tr result. (generate_with_sources env self question docs custom_prompt
      :: event list \<times> (error + 'f pydict)) = (tr, Inr result)"
  using generate_response_returns[of env self question docs custom_prompt, where ?'f = 'f]
  by (auto simp: generate_with_sources_def)

text \<open>
  C4. When the retrieval returns no document, \<open>query\<close> returns, without any call of the
  model, the result with status \<open>warning\<close> (not \<open>error\<close>), the canned answer
  and \<open>context_used = 0\<close>. Otherwise it calls the generator (with or without sources) and
  returns its result with the number of retrieved documents, \<open>alpha\<close> and the namespace
  added.
\<close>

theorem query_short_circuit:
  fixes alpha :: "'f"
  shows "retrieve renv (svc_retriever self) question top_k alpha 20 = (r', tr, Inr docs) \<Longrightarrow>
   (docs = [] \<longrightarrow>
      (\<exists>result. query renv lenv self question top_k alpha include_sources custom_prompt =
            (self\<lparr>svc_retriever := r'\<rparr>, tr, Inr result)
         \<and> result ''status'' = Some (PyStr ''warning'')
         \<and> result ''status'' \<noteq> Some (PyStr ''error'')
         \<and> result ''answer'' =
             Some (PyStr ''I couldn't find any relevant information to answer your question.'')
         \<and> result ''context_used'' = Some (PyInt 0))
      \<and> (\<forall>c qu. CallLLM c qu \<notin> set tr))
   \<and> (docs \<noteq> [] \<longrightarrow>
      (\<exists>tr2 result.
         (if include_sources
          then generate_with_sources lenv (svc_generator self) question docs custom_prompt
          else generate_response lenv (svc_generator self) question docs custom_prompt)
           = (tr2, Inr result)
         \<and> query renv lenv self question top_k alpha include_sources custom_prompt =
             (self\<lparr>svc_retriever := r'\<rparr>, tr @ tr2,
              Inr (result(''retrieved_docs_count'' \<mapsto> PyInt (int (length docs)),
                          ''search_alpha'' \<mapsto> PyFloat alpha,
                          ''namespace'' \<mapsto> PyStr (svc_namespace self))))))"
proof (intro conjI impI allI)
  assume r: "retrieve renv (svc_retriever self) question top_k alpha 20 = (r', tr, Inr docs)"
  show "\<exists>result. query renv lenv self question top_k alpha include_sources custom_prompt =
            (self\<lparr>svc_retriever := r'\<rparr>, tr, Inr result)
         \<and> result ''status'' = Some (PyStr ''warning'')
         \<and> result ''status'' \<noteq> Some (PyStr ''error'')
         \<and> result ''answer'' =
             Some (PyStr ''I couldn't find any relevant information to answer your question.'')
         \<and> result ''context_used'' = Some (PyInt 0)"
    if "docs = []"
    using r that by (simp add: query_def Let_def)
  show "CallLLM c qu \<notin> set tr" for c qu
    using retrieve_no_llm[of c qu renv "svc_retriever self" question top_k alpha 20] r by simp
  show "\<exists>tr2 result.
         (if include_sources
          then generate_with_sources lenv (svc_generator self) question docs custom_prompt
          else generate_response lenv (svc_generator self) question docs custom_prompt)
           = (tr2, Inr result)
         \<and> query renv lenv self question top_k alpha include_sources custom_prompt =
             (self\<lparr>svc_retriever := r'\<rparr>, tr @ tr2,
              Inr (result(''retrieved_docs_count'' \<mapsto> PyInt (int (length docs)),
                          ''search_alpha'' \<mapsto> PyFloat alpha,
                          ''namespace'' \<mapsto> PyStr (svc_namespace self))))"
    if ne: "docs \<noteq> []"
  proof (cases include_sources)
    case True
    obtain tr2 result where g: "(generate_with_sources lenv (svc_generator self) question docs
        custom_prompt :: event list \<times> (error + 'f pydict)) = (tr2, Inr result)"
      using generate_with_sources_returns by blast
    with r ne True show ?thesis by (simp add: query_def Let_def)
  next
    case False
    obtain tr2 result where g: "(generate_response lenv (svc_generator self) question docs
        custom_prompt :: event list \<times> (error + 'f pydict)) = (tr2, Inr result)"
      using generate_response_returns by blast
    with r ne False show ?thesis by (simp add: query_def Let_def)
  qed
qed

lemma sample_dense_retrieve:
  "retrieve (sample_env False up hy (Inr docs) sim) dense_retriever q top_k alpha fetch_k =
     (dense_retriever, [CallMMR q top_k fetch_k], Inr docs)"
  by (simp add: retrieve_dense[where v = 15] sample_env_simps sample_retriever_simps
      caught_def log_retrieval_def)

lemma sample_service_simps:
  "svc_retriever sample_service = dense_retriever"
  "svc_generator sample_service = sample_generator"
  "svc_namespace sample_service = ''default''"
  by (simp_all add: sample_service_def)

theorem query_short_circuit_witness:
  "(\<exists>result. query (sample_env False True (Inr []) (Inr []) (Inr [])) (sample_llm (Inr ''energy''))
          sample_service ''what is atp'' 5 (1 / 2) False None =
            (sample_service\<lparr>svc_retriever := dense_retriever\<rparr>, [CallMMR ''what is atp'' 5 20],
             Inr result)
       \<and> result ''status'' = Some (PyStr ''warning'')
       \<and> result ''context_used'' = Some (PyInt 0))
   \<and> (\<exists>tr2 result.
         generate_response (sample_llm (Inr ''energy'')) sample_generator ''what is atp''
           [sample_doc] None = (tr2, Inr result)
       \<and> query (sample_env False True (Inr []) (Inr [sample_doc]) (Inr [])) (sample_llm (Inr ''energy''))
          sample_service ''what is atp'' 5 (1 / 2) False None =
            (sample_service\<lparr>svc_retriever := dense_retriever\<rparr>,
             [CallMMR ''what is atp'' 5 20] @ tr2,
             Inr (result(''retrieved_docs_count'' \<mapsto> PyInt 1,
                         ''search_alpha'' \<mapsto> PyFloat (1 / 2),
                         ''namespace'' \<mapsto> PyStr ''default''))))"
proof
  show "\<exists>result. query (sample_env False True (Inr []) (Inr []) (Inr [])) (sample_llm (Inr ''energy''))
          sample_service ''what is atp'' 5 (1 / 2) False None =
            (sample_service\<lparr>svc_retriever := dense_retriever\<rparr>, [CallMMR ''what is atp'' 5 20],
             Inr result)
       \<and> result ''status'' = Some (PyStr ''warning'')
       \<and> result ''context_used'' = Some (PyInt 0)"
    using query_short_circuit[of "sample_env False True (Inr []) (Inr []) (Inr [])" sample_service
        "''what is atp''" 5 "1 / 2" dense_retriever "[CallMMR ''what is atp'' 5 20]" "[]"
        "sample_llm (Inr ''energy'')" False None]
    by (auto simp: sample_dense_retrieve sample_service_simps)
  show "\<exists>tr2 result.
         generate_response (sample_llm (Inr ''energy'')) sample_generator ''what is atp''
           [sample_doc] None = (tr2, Inr result)
       \<and> query (sample_env False True (Inr []) (Inr [sample_doc]) (Inr [])) (sample_llm (Inr ''energy''))
          sample_service ''what is atp'' 5 (1 / 2) False None =
            (sample_service\<lparr>svc_retriever := dense_retriever\<rparr>,
             [CallMMR ''what is atp'' 5 20] @ tr2,
             Inr (result(''retrieved_docs_count'' \<mapsto> PyInt 1,
                         ''search_alpha'' \<mapsto> PyFloat (1 / 2),
                         ''namespace'' \<mapsto> PyStr ''default'')))"
    using query_short_circuit[of "sample_env False True (Inr []) (Inr [sample_doc]) (Inr [])"
        sample_service "''what is atp''" 5 "1 / 2" dense_retriever "[CallMMR ''what is atp'' 5 20]"
        "[sample_doc]" "sample_llm (Inr ''energy'')" False None]
    by (simp add: sample_dense_retrieve sample_service_simps)
qed

lemma prepare_context_empty_text:
  "prepare_context [\<lparr>page_content = '''', metadata = []\<rparr>] = ''Document 1:\<newline>\<newline>''"
  by code_simp

lemma generate_only_returns:
  "\<exists>tr result. (generate_only lenv self question context_text custom_prompt
      :: event list \<times> (error + 'f pydict)) = (tr, Inr result)"
  using generate_response_returns[of lenv "svc_generator self" question
      "[\<lparr>page_content = context_text, metadata = []\<rparr>]" custom_prompt, where ?'f = 'f]
  by (auto simp: generate_only_def Let_def)

text \<open>
  C9, as the code has it. \<open>generate_only\<close> with the empty context text composes the context
  from one document with empty content: the context given to the model is the labelled
  block \<open>Document 1:\<close> followed by two newlines, which is neither the sentinel nor the
  empty string. The call never raises, and whenever the model invocation succeeds and the
  line printed after it is written, it returns status \<open>success\<close> with the model's answer,
  \<open>context_used = 1\<close> and \<open>context_provided\<close>; no retrieval takes part.
\<close>

theorem generate_only_empty_context:
  "prepare_context [\<lparr>page_content = '''', metadata = []\<rparr>] = ''Document 1:\<newline>\<newline>''
   \<and> (\<exists>tr result. (generate_only lenv self question '''' custom_prompt
          :: event list \<times> (error + 'f pydict)) = (tr, Inr result))
   \<and> (select_prompt lenv (svc_generator self) custom_prompt = Inr prompt
        \<and> invoke lenv prompt ''Document 1:\<newline>\<newline>'' question = Inr content
        \<and> print_generation lenv = Inr () \<longrightarrow>
        (generate_only lenv self question '''' custom_prompt
          :: event list \<times> (error + 'f pydict)) =
          ([CallLLM ''Document 1:\<newline>\<newline>'' question],
           Inr [''status'' \<mapsto> PyStr ''success'',
                ''answer'' \<mapsto> PyStr content,
                ''context_used'' \<mapsto> PyInt 1,
                ''question'' \<mapsto> PyStr question,
                ''context_provided'' \<mapsto> PyBool True]))"
proof (intro conjI impI)
  show "prepare_context [\<lparr>page_content = '''', metadata = []\<rparr>] = ''Document 1:\<newline>\<newline>''"
    by (rule prepare_context_empty_text)
  show "\<exists>tr result. (generate_only lenv self question '''' custom_prompt
          :: event list \<times> (error + 'f pydict)) = (tr, Inr result)"
    by (rule generate_only_returns)
  assume "select_prompt lenv (svc_generator self) custom_prompt = Inr prompt
        \<and> invoke lenv prompt ''Document 1:\<newline>\<newline>'' question = Inr content
        \<and> print_generation lenv = Inr ()"
  then have s: "select_prompt lenv (svc_generator self) custom_prompt = Inr prompt"
    and i: "invoke lenv prompt (prepare_context [\<lparr>page_content = '''', metadata = []\<rparr>]) question
              = Inr content"
    and p: "print_generation lenv = Inr ()"
    by (simp_all add: prepare_context_empty_text)
  show "(generate_only lenv self question '''' custom_prompt
          :: event list \<times> (error + 'f pydict)) =
          ([CallLLM ''Document 1:\<newline>\<newline>'' question],
           Inr [''status'' \<mapsto> PyStr ''success'',
                ''answer'' \<mapsto> PyStr content,
                ''context_used'' \<mapsto> PyInt 1,
                ''question'' \<mapsto> PyStr question,
                ''context_provided'' \<mapsto> PyBool True])"
    by (simp add: generate_only_def Let_def generate_response_success[OF s i p]
        prepare_context_empty_text)
qed

lemma echo_llm_simps:
  "select_prompt echo_llm sample_generator None = Inr ()"
  "invoke echo_llm p c q = Inr c"
  "print_generation echo_llm = Inr ()"
  by (simp_all add: echo_llm_def select_prompt_def truthy_def sample_generator_def)

theorem generate_only_empty_context_witness:
  "(generate_only echo_llm sample_service ''What is X?'' '''' None
      :: event list \<times> (error + real pydict)) =
     ([CallLLM ''Document 1:\<newline>\<newline>'' ''What is X?''],
      Inr [''status'' \<mapsto> PyStr ''success'',
           ''answer'' \<mapsto> PyStr ''Document 1:\<newline>\<newline>'',
           ''context_used'' \<mapsto> PyInt 1,
           ''question'' \<mapsto> PyStr ''What is X?'',
           ''context_provided'' \<mapsto> PyBool True])"
  using generate_only_empty_context[of echo_llm sample_service "''What is X?''" None "()"
      "''Document 1:\<newline>\<newline>''", where ?'f = real]
  by (simp add: echo_llm_simps sample_service_simps)

theorem generate_only_empty_context_not_sentinel:
  "fst (generate_only echo_llm sample_service ''What is X?'' '''' None
         :: event list \<times> (error + real pydict))
     = [CallLLM ''Document 1:\<newline>\<newline>'' ''What is X?'']
   \<and> CallLLM ''No relevant context found.'' ''What is X?''
       \<notin> set (fst (generate_only echo_llm sample_service ''What is X?'' '''' None
                     :: event list \<times> (error + real pydict)))
   \<and> CallLLM '''' ''What is X?''
       \<notin> set (fst (generate_only echo_llm sample_service ''What is X?'' '''' None
                     :: event list \<times> (error + real pydict)))
   \<and> dict_of (snd (generate_only (sample_llm (Inl timeout_error)) sample_service ''What is X?'' ''''
                     None :: event list \<times> (error + real pydict))) ''status''
       = Some (PyStr ''error'')
   \<and> dict_of (snd (generate_only (ascii_stdout (sample_llm (Inr ''X is a letter''))) sample_service
                     ''What is X?'' '''' None :: event list \<times> (error + real pydict))) ''status''
       = Some (PyStr ''error'')"
proof -
  have c: "prepare_context [\<lparr>page_content = '''', metadata = []\<rparr>] = ''Document 1:\<newline>\<newline>''"
    by code_simp
  have e: "(generate_only echo_llm sample_service ''What is X?'' '''' None
         :: event list \<times> (error + real pydict))
     = ([CallLLM ''Document 1:\<newline>\<newline>'' ''What is X?''],
        Inr [''status'' \<mapsto> PyStr ''success'',
             ''answer'' \<mapsto> PyStr ''Document 1:\<newline>\<newline>'',
             ''context_used'' \<mapsto> PyInt 1,
             ''question'' \<mapsto> PyStr ''What is X?'',
             ''context_provided'' \<mapsto> PyBool True])"
    by (simp add: generate_only_def Let_def generate_response_def c echo_llm_simps
        sample_service_simps)
  have f: "dict_of (snd (generate_only (sample_llm (Inl timeout_error)) sample_service ''What is X?'' ''''
                     None :: event list \<times> (error + real pydict))) ''status''
       = Some (PyStr ''error'')"
    by (simp add: generate_only_def Let_def generate_response_def c sample_llm_simps
        sample_service_simps dict_of_def)
  have g: "dict_of (snd (generate_only (ascii_stdout (sample_llm (Inr ''X is a letter''))) sample_service
                     ''What is X?'' '''' None :: event list \<times> (error + real pydict))) ''status''
       = Some (PyStr ''error'')"
    by (simp add: generate_only_def Let_def generate_response_def c sample_llm_simps
        sample_service_simps dict_of_def)
  show ?thesis
    by (simp add: e f g)
qed

section \<open>Index initialization\<close>

lemma initialize_pinecone_present:
  assumes "Pinecone_client env (PINECONE_API_KEY (vs_config self)) = Inr p"
    and "list_indexes env p w = Inr existing"
    and "PINECONE_INDEX_NAME (vs_config self) \<in> set existing"
  shows "initialize_pinecone env self w =
     (case Index_client env p (PINECONE_INDEX_NAME (vs_config self)) of
        Inl e \<Rightarrow> (self\<lparr>vs_pc := Some p\<rparr>, w, [], Inl e)
      | Inr ix \<Rightarrow> (self\<lparr>vs_pc := Some p, vs_index := Some ix\<rparr>, w, [], Inr ()))"
  using assms by (simp add: initialize_pinecone_def Let_def split: sum.splits)

lemma initialize_pinecone_unlocated:
  assumes "Pinecone_client env (PINECONE_API_KEY (vs_config self)) = Inr p"
    and "list_indexes env p w = Inr existing"
    and "PINECONE_INDEX_NAME (vs_config self) \<notin> set existing"
    and "\<not> (truthy (PINECONE_CLOUD (vs_config self)) \<and> truthy (PINECONE_REGION (vs_config self)))"
  shows "initialize_pinecone env self w = (self\<lparr>vs_pc := Some p\<rparr>, w, [], Inl location_error)"
  using assms by (auto simp: initialize_pinecone_def Let_def)

lemma initialize_pinecone_absent:
  assumes "Pinecone_client env (PINECONE_API_KEY (vs_config self)) = Inr p"
    and "list_indexes env p w = Inr existing"
    and "PINECONE_INDEX_NAME (vs_config self) \<notin> set existing"
    and "truthy (PINECONE_CLOUD (vs_config self)) \<and> truthy (PINECONE_REGION (vs_config self))"
  shows "initialize_pinecone env self w =
     (case create_index env p (PINECONE_INDEX_NAME (vs_config self)) (embedding_dim (vs_config self))
             ''cosine'' (the (PINECONE_CLOUD (vs_config self))) (the (PINECONE_REGION (vs_config self))) w of
        (w', Inl e) \<Rightarrow>
          (self\<lparr>vs_pc := Some p\<rparr>, w',
           [CallCreateIndex (PINECONE_INDEX_NAME (vs_config self)) (embedding_dim (vs_config self))
              ''cosine'' (the (PINECONE_CLOUD (vs_config self))) (the (PINECONE_REGION (vs_config self)))],
           Inl e)
      | (w', Inr u) \<Rightarrow>
          (case Index_client env p (PINECONE_INDEX_NAME (vs_config self)) of
             Inl e \<Rightarrow>
               (self\<lparr>vs_pc := Some p\<rparr>, w',
                [CallCreateIndex (PINECONE_INDEX_NAME (vs_config self)) (embedding_dim (vs_config self))
                   ''cosine'' (the (PINECONE_CLOUD (vs_config self))) (the (PINECONE_REGION (vs_config self)))],
                Inl e)
           | Inr ix \<Rightarrow>
               (self\<lparr>vs_pc := Some p, vs_index := Some ix\<rparr>, w',
                [CallCreateIndex (PINECONE_INDEX_NAME (vs_config self)) (embedding_dim (vs_config self))
                   ''cosine'' (the (PINECONE_CLOUD (vs_config self))) (the (PINECONE_REGION (vs_config self)))],
                Inr ())))"
  using assms by (auto simp: initialize_pinecone_def Let_def split: sum.splits prod.splits)

lemma initialize_pinecone_again:
  assumes client: "Pinecone_client env (PINECONE_API_KEY (vs_config self)) = Inr p"
    and listed: "list_indexes env p w = Inr existing"
    and law: "created_listed env"
    and first: "initialize_pinecone env self w = (self1, w1, tr1, Inr ())"
  shows "initialize_pinecone env self1 w1 = (self1, w1, [], Inr ())"
proof -
  let ?name = "PINECONE_INDEX_NAME (vs_config self)"
  have "\<exists>ix names. Index_client env p ?name = Inr ix \<and> self1 = self\<lparr>vs_pc := Some p, vs_index := Some ix\<rparr>
      \<and> list_indexes env p w1 = Inr names \<and> ?name \<in> set names"
  proof (cases "?name \<in> set existing")
    case True
    with first listed show ?thesis
      by (auto simp: initialize_pinecone_present[OF client listed True] split: sum.splits)
  next
    case False
    show ?thesis
    proof (cases "truthy (PINECONE_CLOUD (vs_config self)) \<and> truthy (PINECONE_REGION (vs_config self))")
      case False
      with first show ?thesis
        using initialize_pinecone_unlocated[OF client listed \<open>?name \<notin> set existing\<close> False]
        by simp
    next
      case True
      from first law show ?thesis
        unfolding initialize_pinecone_absent[OF client listed False True] created_listed_def
        by (fastforce split: prod.splits sum.splits)
    qed
  qed
  then obtain ix names where ix: "Index_client env p ?name = Inr ix"
    and s1: "self1 = self\<lparr>vs_pc := Some p, vs_index := Some ix\<rparr>"
    and l1: "list_indexes env p w1 = Inr names" and n1: "?name \<in> set names"
    by blast
  have c1: "Pinecone_client env (PINECONE_API_KEY (vs_config self1)) = Inr p"
    using client s1 by simp
  have m1: "PINECONE_INDEX_NAME (vs_config self1) \<in> set names"
    using n1 s1 by simp
  note initialize_pinecone_present[OF c1 l1 m1]
  then show ?thesis
    using ix s1 by simp
qed

text \<open>
  C8. Once the client is built and the indexes are listed, \<open>_initialize_pinecone\<close> creates
  the index only if its name is not listed: with the index present it makes no call of
  \<open>create_index\<close> and leaves the service as it is; with the index absent and the cloud or
  the region unset (or empty) it raises the configuration error at once, before any call
  that changes the service; with the index absent and both set it calls
  \<open>create_index\<close> once, with the name, the dimension of the embedding model, the cosine
  metric and that location. It is idempotent: on a service that lists the indexes it has
  created, a second run after a successful one creates nothing and changes nothing.
\<close>

theorem initialize_pinecone_idempotent:
  assumes "Pinecone_client env (PINECONE_API_KEY (vs_config self)) = Inr p"
    and "list_indexes env p w = Inr existing"
  shows
    "(PINECONE_INDEX_NAME (vs_config self) \<in> set existing \<longrightarrow>
        initialize_pinecone env self w =
          (case Index_client env p (PINECONE_INDEX_NAME (vs_config self)) of
             Inl e \<Rightarrow> (self\<lparr>vs_pc := Some p\<rparr>, w, [], Inl e)
           | Inr ix \<Rightarrow> (self\<lparr>vs_pc := Some p, vs_index := Some ix\<rparr>, w, [], Inr ())))
     \<and> (PINECONE_INDEX_NAME (vs_config self) \<notin> set existing
          \<and> \<not> (truthy (PINECONE_CLOUD (vs_config self)) \<and> truthy (PINECONE_REGION (vs_config self)))
        \<longrightarrow> initialize_pinecone env self w = (self\<lparr>vs_pc := Some p\<rparr>, w, [], Inl location_error))
     \<and> (PINECONE_INDEX_NAME (vs_config self) \<notin> set existing
          \<and> truthy (PINECONE_CLOUD (vs_config self)) \<and> truthy (PINECONE_REGION (vs_config self))
        \<longrightarrow> (\<exists>w' res. create_index env p (PINECONE_INDEX_NAME (vs_config self))
                  (embedding_dim (vs_config self)) ''cosine'' (the (PINECONE_CLOUD (vs_config self)))
                  (the (PINECONE_REGION (vs_config self))) w = (w', res)
              \<and> fst (snd (initialize_pinecone env self w)) = w'
              \<and> fst (snd (snd (initialize_pinecone env self w))) =
                  [CallCreateIndex (PINECONE_INDEX_NAME (vs_config self))
                     (embedding_dim (vs_config self)) ''cosine''
                     (the (PINECONE_CLOUD (vs_config self))) (the (PINECONE_REGION (vs_config self)))]
              \<and> (\<forall>e. res = Inl e \<longrightarrow> snd (snd (snd (initialize_pinecone env self w))) = Inl e)))
     \<and> (created_listed env \<and> initialize_pinecone env self w = (self1, w1, tr1, Inr ())
        \<longrightarrow> initialize_pinecone env self1 w1 = (self1, w1, [], Inr ()))"
proof (intro conjI impI)
  assume "PINECONE_INDEX_NAME (vs_config self) \<in> set existing"
  with assms show "initialize_pinecone env self w =
          (case Index_client env p (PINECONE_INDEX_NAME (vs_config self)) of
             Inl e \<Rightarrow> (self\<lparr>vs_pc := Some p\<rparr>, w, [], Inl e)
           | Inr ix \<Rightarrow> (self\<lparr>vs_pc := Some p, vs_index := Some ix\<rparr>, w, [], Inr ()))"
    by (rule initialize_pinecone_present)
next
  assume "PINECONE_INDEX_NAME (vs_config self) \<notin> set existing
      \<and> \<not> (truthy (PINECONE_CLOUD (vs_config self)) \<and> truthy (PINECONE_REGION (vs_config self)))"
  then show "initialize_pinecone env self w = (self\<lparr>vs_pc := Some p\<rparr>, w, [], Inl location_error)"
    using initialize_pinecone_unlocated[OF assms] by blast
next
  assume a: "PINECONE_INDEX_NAME (vs_config self) \<notin> set existing
      \<and> truthy (PINECONE_CLOUD (vs_config self)) \<and> truthy (PINECONE_REGION (vs_config self))"
  then have n: "PINECONE_INDEX_NAME (vs_config self) \<notin> set existing"
    and t: "truthy (PINECONE_CLOUD (vs_config self)) \<and> truthy (PINECONE_REGION (vs_config self))"
    by simp_all
  show "\<exists>w' res. create_index env p (PINECONE_INDEX_NAME (vs_config self))
                  (embedding_dim (vs_config self)) ''cosine'' (the (PINECONE_CLOUD (vs_config self)))
                  (the (PINECONE_REGION (vs_config self))) w = (w', res)
              \<and> fst (snd (initialize_pinecone env self w)) = w'
              \<and> fst (snd (snd (initialize_pinecone env self w))) =
                  [CallCreateIndex (PINECONE_INDEX_NAME (vs_config self))
                     (embedding_dim (vs_config self)) ''cosine''
                     (the (PINECONE_CLOUD (vs_config self))) (the (PINECONE_REGION (vs_config self)))]
              \<and> (\<forall>e. res = Inl e \<longrightarrow> snd (snd (snd (initialize_pinecone env self w))) = Inl e)"
    unfolding initialize_pinecone_absent[OF assms n t]
    by (auto split: prod.splits sum.splits)
next
  assume "created_listed env \<and> initialize_pinecone env self w = (self1, w1, tr1, Inr ())"
  then show "initialize_pinecone env self1 w1 = (self1, w1, [], Inr ())"
    using initialize_pinecone_again[OF assms] by blast
qed

lemma sample_pinecone_simps:
  "Pinecone_client sample_pinecone (Some ''pc-test'') = Inr 21"
  "list_indexes sample_pinecone p w = Inr w"
  "create_index sample_pinecone p name d metric cloud region w = (w @ [name], Inr ())"
  "Index_client sample_pinecone p name = Inr 22"
  by (simp_all add: sample_pinecone_def truthy_def)

lemma sample_pinecone_listed: "created_listed sample_pinecone"
  by (simp add: created_listed_def sample_pinecone_def)

lemma sample_store_simps:
  "PINECONE_API_KEY (vs_config blank_store) = Some ''pc-test''"
  "PINECONE_INDEX_NAME (vs_config blank_store) = ''rag-index''"
  "truthy (PINECONE_CLOUD (vs_config blank_store))"
  "truthy (PINECONE_REGION (vs_config blank_store))"
  "the (PINECONE_CLOUD (vs_config blank_store)) = ''aws''"
  "the (PINECONE_REGION (vs_config blank_store)) = ''us-east-1''"
  "embedding_dim (vs_config blank_store) = 1536"
  "PINECONE_API_KEY (vs_config unlocated_store) = Some ''pc-test''"
  "PINECONE_INDEX_NAME (vs_config unlocated_store) = ''rag-index''"
  "\<not> truthy (PINECONE_REGION (vs_config unlocated_store))"
  by (simp_all add: blank_store_def unlocated_store_def sample_config_def truthy_def embedding_dim_def)

theorem initialize_pinecone_idempotent_witness:
  "initialize_pinecone sample_pinecone blank_store [''rag-index''] =
     (blank_store\<lparr>vs_pc := Some 21, vs_index := Some 22\<rparr>, [''rag-index''], [], Inr ())
   \<and> initialize_pinecone sample_pinecone unlocated_store [''other''] =
     (unlocated_store\<lparr>vs_pc := Some 21\<rparr>, [''other''], [], Inl location_error)
   \<and> fst (snd (snd (initialize_pinecone sample_pinecone blank_store [''other'']))) =
     [CallCreateIndex ''rag-index'' 1536 ''cosine'' ''aws'' ''us-east-1'']
   \<and> fst (snd (initialize_pinecone sample_pinecone blank_store [''other''])) = [''other'', ''rag-index'']
   \<and> initialize_pinecone sample_pinecone (blank_store\<lparr>vs_pc := Some 21, vs_index := Some 22\<rparr>)
       [''other'', ''rag-index''] =
     (blank_store\<lparr>vs_pc := Some 21, vs_index := Some 22\<rparr>, [''other'', ''rag-index''], [], Inr ())"
proof -
  have first: "initialize_pinecone sample_pinecone blank_store [''other''] =
     (blank_store\<lparr>vs_pc := Some 21, vs_index := Some 22\<rparr>, [''other'', ''rag-index''],
      [CallCreateIndex ''rag-index'' 1536 ''cosine'' ''aws'' ''us-east-1''], Inr ())"
    by (simp add: initialize_pinecone_def Let_def sample_pinecone_simps sample_store_simps)
  have a: "initialize_pinecone sample_pinecone blank_store [''rag-index''] =
     (blank_store\<lparr>vs_pc := Some 21, vs_index := Some 22\<rparr>, [''rag-index''], [], Inr ())"
    using initialize_pinecone_idempotent[of sample_pinecone blank_store 21 "[''rag-index'']"
        "[''rag-index'']"]
    by (simp add: sample_pinecone_simps sample_store_simps)
  have b: "initialize_pinecone sample_pinecone unlocated_store [''other''] =
     (unlocated_store\<lparr>vs_pc := Some 21\<rparr>, [''other''], [], Inl location_error)"
    using initialize_pinecone_idempotent[of sample_pinecone unlocated_store 21 "[''other'']"
        "[''other'']"]
    by (simp add: sample_pinecone_simps sample_store_simps)
  have c: "fst (snd (snd (initialize_pinecone sample_pinecone blank_store [''other'']))) =
       [CallCreateIndex ''rag-index'' 1536 ''cosine'' ''aws'' ''us-east-1'']
     \<and> fst (snd (initialize_pinecone sample_pinecone blank_store [''other''])) = [''other'', ''rag-index'']"
    using initialize_pinecone_idempotent[of sample_pinecone blank_store 21 "[''other'']"
        "[''other'']"]
    by (simp add: sample_pinecone_simps sample_store_simps)
  have d: "initialize_pinecone sample_pinecone (blank_store\<lparr>vs_pc := Some 21, vs_index := Some 22\<rparr>)
       [''other'', ''rag-index''] =
     (blank_store\<lparr>vs_pc := Some 21, vs_index := Some 22\<rparr>, [''other'', ''rag-index''], [], Inr ())"
    using initialize_pinecone_idempotent[of sample_pinecone blank_store 21 "[''other'']"
        "[''other'']" "blank_store\<lparr>vs_pc := Some 21, vs_index := Some 22\<rparr>"
        "[''other'', ''rag-index'']"
        "[CallCreateIndex ''rag-index'' 1536 ''cosine'' ''aws'' ''us-east-1'']"]
      first sample_pinecone_listed
    by (simp add: sample_pinecone_simps sample_store_simps)
  from a b c d show ?thesis by blast
qed

end
